theory Spec2Isabelle
  imports Complex_Main
begin

section \<open>Text primitives\<close>

text \<open>
  Python strings are modelled as lists of 8-bit characters read as Latin-1 code points.
  Python floats are modelled as exact rationals; Python ints as \<open>int\<close>.
\<close>

datatype error = TypeError | ValueError | AttributeError | KeyError

definition ebind :: "error + 'a \<Rightarrow> ('a \<Rightarrow> error + 'b) \<Rightarrow> error + 'b" where
  "ebind x f = (case x of Inl e \<Rightarrow> Inl e | Inr v \<Rightarrow> f v)"

definition code_point :: "char \<Rightarrow> nat" where
  "code_point c = of_char c"

text \<open>\<open>str.isspace\<close> and the class \<open>\s\<close> on the Latin-1 range.\<close>

definition is_space :: "char \<Rightarrow> bool" where
  "is_space c = (let n = code_point c in
     (9 \<le> n \<and> n \<le> 13) \<or> (28 \<le> n \<and> n \<le> 32) \<or> n = 133 \<or> n = 160)"

text \<open>The class \<open>\d\<close> (and \<open>[0-9]\<close>) on the Latin-1 range.\<close>

definition is_digit :: "char \<Rightarrow> bool" where
  "is_digit c = (let n = code_point c in 48 \<le> n \<and> n \<le> 57)"

text \<open>\<open>str.lower\<close> on the Latin-1 range: the letters A to Z and the accented capitals
  0xC0 to 0xDE (but not the multiplication sign 0xD7) move up by 32.\<close>

definition lower_char :: "char \<Rightarrow> char" where
  "lower_char c = (let n = code_point c in
     if (65 \<le> n \<and> n \<le> 90) \<or> (192 \<le> n \<and> n \<le> 222 \<and> n \<noteq> 215)
     then char_of (n + 32) else c)"

definition lower :: "string \<Rightarrow> string" where
  "lower s = map lower_char s"

definition strip :: "string \<Rightarrow> string" where
  "strip s = rev (dropWhile is_space (rev (dropWhile is_space s)))"

fun starts_with :: "string \<Rightarrow> string \<Rightarrow> bool" where
  "starts_with [] s = True"
| "starts_with (p # ps) [] = False"
| "starts_with (p # ps) (x # xs) = (p = x \<and> starts_with ps xs)"

text \<open>The substring test \<open>sub in s\<close>.\<close>

fun contains :: "string \<Rightarrow> string \<Rightarrow> bool" where
  "contains sub [] = (sub = [])"
| "contains sub (x # xs) = (starts_with sub (x # xs) \<or> contains sub xs)"

fun join :: "string \<Rightarrow> string list \<Rightarrow> string" where
  "join sep [] = []"
| "join sep [x] = x"
| "join sep (x # y # ys) = x @ sep @ join sep (y # ys)"

definition digit_val :: "char \<Rightarrow> nat" where
  "digit_val c = code_point c - 48"

definition digits_val :: "string \<Rightarrow> nat" where
  "digits_val s = foldl (\<lambda>acc c. 10 * acc + digit_val c) 0 s"

text \<open>\<open>int(s)\<close> on a text: a non-empty run of digits is read in base ten; any other text
  the patterns below could hand over is a \<open>ValueError\<close>.\<close>

definition py_int :: "string \<Rightarrow> error + int" where
  "py_int s = (if s \<noteq> [] \<and> list_all is_digit s then Inr (int (digits_val s)) else Inl ValueError)"

text \<open>\<open>float(s)\<close> on a text of the shape \<open>digits\<close> or \<open>digits.digits\<close>.\<close>

definition py_float :: "string \<Rightarrow> error + rat" where
  "py_float s =
     (let ip = takeWhile is_digit s; rest = dropWhile is_digit s in
      if ip = [] then Inl ValueError
      else if rest = [] then Inr (of_nat (digits_val ip))
      else (case rest of
              c # fp \<Rightarrow>
                if c = CHR ''.'' \<and> fp \<noteq> [] \<and> list_all is_digit fp
                then Inr (of_nat (digits_val ip) + of_nat (digits_val fp) / 10 ^ length fp)
                else Inl ValueError
            | [] \<Rightarrow> Inl ValueError))"

section \<open>Regular expressions of the \<open>re\<close> module\<close>

text \<open>
  The fragment of the pattern language that the repository's patterns use, with the
  backtracking order of \<open>re\<close>: a matcher returns every way of matching at the front of the
  remaining input, most preferred first, together with the capture groups.
\<close>

datatype regex =
    Lit char
  | Digit
  | Space
  | NoneOf "char list"
  | Eol
  | Eps
  | Cat regex regex
  | Alt regex regex
  | Star regex
  | LazyStar regex
  | Group nat regex

definition Opt :: "regex \<Rightarrow> regex" where
  "Opt r = Alt r Eps"

definition Plus :: "regex \<Rightarrow> regex" where
  "Plus r = Cat r (Star r)"

definition LazyPlus :: "regex \<Rightarrow> regex" where
  "LazyPlus r = Cat r (LazyStar r)"

fun seq :: "regex list \<Rightarrow> regex" where
  "seq [] = Eps"
| "seq [r] = r"
| "seq (r # rs) = Cat r (seq rs)"

definition str :: "string \<Rightarrow> regex" where
  "str s = seq (map Lit s)"

fun alts :: "regex list \<Rightarrow> regex" where
  "alts [] = Eps"
| "alts [r] = r"
| "alts (r # rs) = Alt r (alts rs)"

text \<open>The capture groups set so far, latest first; \<open>group m n\<close> is \<open>m.group(n)\<close>, with
  \<open>None\<close> for a group that took no part in the match.\<close>

type_synonym groups = "(nat \<times> string) list"
type_synonym mstate = "string \<times> groups"

definition group :: "groups \<Rightarrow> nat \<Rightarrow> string option" where
  "group m n = map_of m n"

text \<open>Greedy and lazy repetition. Every iteration has to consume input, so the length of
  the remaining input bounds the number of iterations.\<close>

primrec star_greedy :: "(mstate \<Rightarrow> mstate list) \<Rightarrow> nat \<Rightarrow> mstate \<Rightarrow> mstate list" where
  "star_greedy f 0 st = [st]"
| "star_greedy f (Suc n) st =
     concat (map (\<lambda>st'. if length (fst st') < length (fst st) then star_greedy f n st' else [])
                 (f st)) @ [st]"

primrec star_lazy :: "(mstate \<Rightarrow> mstate list) \<Rightarrow> nat \<Rightarrow> mstate \<Rightarrow> mstate list" where
  "star_lazy f 0 st = [st]"
| "star_lazy f (Suc n) st =
     st # concat (map (\<lambda>st'. if length (fst st') < length (fst st) then star_lazy f n st' else [])
                      (f st))"

definition one_char :: "(char \<Rightarrow> bool) \<Rightarrow> mstate \<Rightarrow> mstate list" where
  "one_char p st = (case fst st of [] \<Rightarrow> [] | x # xs \<Rightarrow> if p x then [(xs, snd st)] else [])"

definition set_group :: "nat \<Rightarrow> string \<Rightarrow> mstate \<Rightarrow> mstate" where
  "set_group n s st = (fst st, (n, take (length s - length (fst st)) s) # snd st)"

text \<open>\<open>ic\<close> is the flag \<open>re.IGNORECASE\<close>; \<open>Eol\<close> is \<open>$\<close> under \<open>re.MULTILINE\<close>.\<close>

definition char_eq :: "bool \<Rightarrow> char \<Rightarrow> char \<Rightarrow> bool" where
  "char_eq ic c x = (if ic then lower_char x = lower_char c else x = c)"

definition none_of :: "char list \<Rightarrow> char \<Rightarrow> bool" where
  "none_of cs x = (\<not> List.member cs x)"

definition at_eol :: "mstate \<Rightarrow> mstate list" where
  "at_eol st = (case fst st of [] \<Rightarrow> [st] | x # _ \<Rightarrow> if x = CHR 0x0A then [st] else [])"

primrec ms :: "regex \<Rightarrow> bool \<Rightarrow> mstate \<Rightarrow> mstate list" where
  "ms (Lit c) ic st = one_char (char_eq ic c) st"
| "ms Digit ic st = one_char is_digit st"
| "ms Space ic st = one_char is_space st"
| "ms (NoneOf cs) ic st = one_char (none_of cs) st"
| "ms Eol ic st = at_eol st"
| "ms Eps ic st = [st]"
| "ms (Cat a b) ic st = concat (map (ms b ic) (ms a ic st))"
| "ms (Alt a b) ic st = ms a ic st @ ms b ic st"
| "ms (Star r) ic st = star_greedy (ms r ic) (length (fst st)) st"
| "ms (LazyStar r) ic st = star_lazy (ms r ic) (length (fst st)) st"
| "ms (Group n r) ic st = map (set_group n (fst st)) (ms r ic st)"

text \<open>\<open>re.search\<close>: the leftmost position with a match, and there the preferred match.
  The result is the text from the start of the match, the text after it, and the groups.\<close>

fun search_from :: "regex \<Rightarrow> bool \<Rightarrow> string \<Rightarrow> (string \<times> string \<times> groups) option" where
  "search_from r ic [] =
     (case ms r ic ([], []) of [] \<Rightarrow> None | st # _ \<Rightarrow> Some ([], fst st, snd st))"
| "search_from r ic (x # xs) =
     (case ms r ic (x # xs, []) of
        [] \<Rightarrow> search_from r ic xs
      | st # _ \<Rightarrow> Some (x # xs, fst st, snd st))"

definition re_search :: "regex \<Rightarrow> bool \<Rightarrow> string \<Rightarrow> groups option" where
  "re_search r ic s = map_option (\<lambda>m. snd (snd m)) (search_from r ic s)"

text \<open>\<open>re.finditer\<close>: the successive non-overlapping matches, left to right.\<close>

fun finditer_fuel :: "nat \<Rightarrow> regex \<Rightarrow> bool \<Rightarrow> string \<Rightarrow> groups list" where
  "finditer_fuel 0 r ic s = []"
| "finditer_fuel (Suc n) r ic s =
     (case search_from r ic s of
        None \<Rightarrow> []
      | Some (s0, s1, g) \<Rightarrow>
          g # (if length s1 < length s0 then finditer_fuel n r ic s1
               else (case s1 of [] \<Rightarrow> [] | _ # xs \<Rightarrow> finditer_fuel n r ic xs)))"

definition finditer :: "regex \<Rightarrow> bool \<Rightarrow> string \<Rightarrow> groups list" where
  "finditer r ic s = finditer_fuel (Suc (length s)) r ic s"

section \<open>The Normalizer (\<open>MedallionProcessor\<close>)\<close>

text \<open>The instance state: the table \<open>conversion_rules\<close> set up by the constructor.\<close>

record processor =
  height_Short :: rat
  height_Medium :: rat
  height_Tall :: rat
  height_feet_to_cm :: rat
  flowering_weeks_to_days :: int

definition MedallionProcessor_init :: processor where
  "MedallionProcessor_init =
     \<lparr>height_Short = 80, height_Medium = 120, height_Tall = 180,
      height_feet_to_cm = 3048 / 100, flowering_weeks_to_days = 7\<rparr>"

text \<open>A bronze record: field name to verbatim text; an absent key is \<open>None\<close>.\<close>

type_synonym bronze = "string \<rightharpoonup> string"

text \<open>The sub-pattern \<open>\d+(?:\.\d+)?\<close>.\<close>

definition decimal :: regex where
  "decimal = Cat (Plus Digit) (Opt (Cat (Lit CHR ''.'') (Plus Digit)))"

text \<open>\<open>(\d+(?:\.\d+)?)\s*-?\s*(\d+(?:\.\d+)?)?\s*cm\<close>\<close>

definition cm_pattern :: regex where
  "cm_pattern = seq [Group 1 decimal, Star Space, Opt (Lit CHR ''-''), Star Space,
                     Opt (Group 2 decimal), Star Space, str ''cm'']"

text \<open>\<open>(\d+(?:\.\d+)?)\s*-?\s*(\d+(?:\.\d+)?)?\s*(?:feet|ft)\<close>\<close>

definition feet_pattern :: regex where
  "feet_pattern = seq [Group 1 decimal, Star Space, Opt (Lit CHR ''-''), Star Space,
                       Opt (Group 2 decimal), Star Space, Alt (str ''feet'') (str ''ft'')]"

text \<open>\<open>(\d+)\s*-?\s*(\d+)?\s*(?:weeks?|wks?)\<close>\<close>

definition week_pattern :: regex where
  "week_pattern = seq [Group 1 (Plus Digit), Star Space, Opt (Lit CHR ''-''), Star Space,
                       Opt (Group 2 (Plus Digit)), Star Space,
                       Alt (Cat (str ''week'') (Opt (Lit CHR ''s'')))
                           (Cat (str ''wk'') (Opt (Lit CHR ''s'')))]"

text \<open>\<open>(\d+)\s*-?\s*(\d+)?\s*days?\<close>\<close>

definition day_pattern :: regex where
  "day_pattern = seq [Group 1 (Plus Digit), Star Space, Opt (Lit CHR ''-''), Star Space,
                      Opt (Group 2 (Plus Digit)), Star Space, str ''day'', Opt (Lit CHR ''s'')]"

text \<open>\<open>(\d+(?:\.\d+)?)\s*-?\s*(\d+(?:\.\d+)?)?\s*%\<close>\<close>

definition percent_pattern :: regex where
  "percent_pattern = seq [Group 1 decimal, Star Space, Opt (Lit CHR ''-''), Star Space,
                          Opt (Group 2 decimal), Star Space, Lit CHR ''%'']"

text \<open>\<open>(\d+)\s*%\s*{genetics_type}\<close>; both call sites pass a plain word.\<close>

definition genetics_pattern :: "string \<Rightarrow> regex" where
  "genetics_pattern genetics_type =
     seq [Group 1 (Plus Digit), Star Space, Lit CHR ''%'', Star Space, str genetics_type]"

text \<open>\<open>match.group(n)\<close> handed to \<open>float\<close> / \<open>int\<close>: a group that did not take part is
  \<open>None\<close>, on which both raise \<open>TypeError\<close>.\<close>

definition float_group :: "string option \<Rightarrow> error + rat" where
  "float_group g = (case g of None \<Rightarrow> Inl TypeError | Some s \<Rightarrow> py_float s)"

definition int_group :: "string option \<Rightarrow> error + int" where
  "int_group g = (case g of None \<Rightarrow> Inl TypeError | Some s \<Rightarrow> py_int s)"

text \<open>Truthiness of an optional text: neither \<open>None\<close> nor empty.\<close>

definition truthy :: "string option \<Rightarrow> bool" where
  "truthy g = (case g of None \<Rightarrow> False | Some s \<Rightarrow> s \<noteq> [])"

definition extract_height_range :: "processor \<Rightarrow> string option \<Rightarrow> bool \<Rightarrow> error + rat option" where
  "extract_height_range self height_raw max_val =
     (if \<not> truthy height_raw then Inr None
      else let raw = the height_raw; height_lower = lower raw in
        if contains ''short'' height_lower then Inr (Some (height_Short self))
        else if contains ''medium'' height_lower then Inr (Some (height_Medium self))
        else if contains ''tall'' height_lower then Inr (Some (height_Tall self))
        else (case re_search cm_pattern True raw of
                Some cm_match \<Rightarrow>
                  ebind (float_group (group cm_match 1)) (\<lambda>min_val.
                    let max_val_found = group cm_match 2 in
                    if truthy max_val_found \<and> max_val
                    then ebind (float_group max_val_found) (\<lambda>v. Inr (Some v))
                    else Inr (Some min_val))
              | None \<Rightarrow>
                 (case re_search feet_pattern True raw of
                    Some feet_match \<Rightarrow>
                      ebind (float_group (group feet_match 1)) (\<lambda>v1.
                        let min_val = v1 * height_feet_to_cm self;
                            max_val_found = group feet_match 2 in
                        if truthy max_val_found \<and> max_val
                        then ebind (float_group max_val_found)
                               (\<lambda>v. Inr (Some (v * height_feet_to_cm self)))
                        else Inr (Some min_val))
                  | None \<Rightarrow> Inr None)))"

definition extract_flowering_range :: "processor \<Rightarrow> string option \<Rightarrow> bool \<Rightarrow> error + int option" where
  "extract_flowering_range self flowering_raw max_val =
     (if \<not> truthy flowering_raw then Inr None
      else let raw = the flowering_raw in
        (case re_search week_pattern True raw of
           Some week_match \<Rightarrow>
             ebind (int_group (group week_match 1)) (\<lambda>min_weeks.
               let max_weeks = group week_match 2 in
               if truthy max_weeks \<and> max_val
               then ebind (int_group max_weeks)
                      (\<lambda>v. Inr (Some (v * flowering_weeks_to_days self)))
               else Inr (Some (min_weeks * flowering_weeks_to_days self)))
         | None \<Rightarrow>
            (case re_search day_pattern True raw of
               Some day_match \<Rightarrow>
                 ebind (int_group (group day_match 1)) (\<lambda>min_days.
                   let max_days = group day_match 2 in
                   if truthy max_days \<and> max_val
                   then ebind (int_group max_days) (\<lambda>v. Inr (Some v))
                   else Inr (Some min_days))
             | None \<Rightarrow> Inr None)))"

definition extract_percentage_range :: "string option \<Rightarrow> bool \<Rightarrow> error + rat option" where
  "extract_percentage_range percentage_raw max_val =
     (if \<not> truthy percentage_raw then Inr None
      else let raw = the percentage_raw in
        (case re_search percent_pattern False raw of
           Some percent_match \<Rightarrow>
             ebind (float_group (group percent_match 1)) (\<lambda>min_val.
               let max_val_found = group percent_match 2 in
               if truthy max_val_found \<and> max_val
               then ebind (float_group max_val_found) (\<lambda>v. Inr (Some v))
               else Inr (Some min_val))
         | None \<Rightarrow> Inr None))"

definition extract_genetics :: "string option \<Rightarrow> string \<Rightarrow> error + int option" where
  "extract_genetics genetics_raw genetics_type =
     (if \<not> truthy genetics_raw then Inr None
      else (case re_search (genetics_pattern genetics_type) True (the genetics_raw) of
              Some m \<Rightarrow> ebind (int_group (group m 1)) (\<lambda>v. Inr (Some v))
            | None \<Rightarrow> Inr None))"

definition effect_mappings :: "(string \<times> string) list" where
  "effect_mappings =
     [(''relaxing'', ''Relaxed''), (''euphoric'', ''Euphoric''), (''uplifting'', ''Uplifted''),
      (''energetic'', ''Energetic''), (''creative'', ''Creative''), (''focused'', ''Focused''),
      (''happy'', ''Happy''), (''sleepy'', ''Sleepy'')]"

definition flavor_mappings :: "(string \<times> string) list" where
  "flavor_mappings =
     [(''citrus'', ''Citrus''), (''lemon'', ''Lemon''), (''orange'', ''Orange''),
      (''berry'', ''Berry''), (''sweet'', ''Sweet''), (''earthy'', ''Earthy''),
      (''pine'', ''Pine''), (''diesel'', ''Diesel''), (''skunk'', ''Skunk''),
      (''fruity'', ''Fruity'')]"

definition standardize :: "(string \<times> string) list \<Rightarrow> string option \<Rightarrow> string option" where
  "standardize mappings raw =
     (if \<not> truthy raw then None
      else let text_lower = lower (the raw);
               standardized = map snd (filter (\<lambda>kv. contains (fst kv) text_lower) mappings)
           in if standardized \<noteq> [] then Some (join '', '' standardized) else None)"

definition standardize_effects :: "string option \<Rightarrow> string option" where
  "standardize_effects effects_raw = standardize effect_mappings effects_raw"

definition standardize_flavors :: "string option \<Rightarrow> string option" where
  "standardize_flavors flavors_raw = standardize flavor_mappings flavors_raw"

definition field_weights :: "(string \<times> int) list" where
  "field_weights =
     [(''height_raw'', 2), (''flowering_time_raw'', 3), (''thc_content_raw'', 3),
      (''cbd_content_raw'', 2), (''genetics_raw'', 2), (''effects_raw'', 1),
      (''flavors_raw'', 1)]"

text \<open>The loop test \<open>bronze_data.get(field) and len(str(bronze_data[field]).strip()) > 2\<close>.\<close>

definition field_counts :: "bronze \<Rightarrow> string \<Rightarrow> bool" where
  "field_counts bronze_data field =
     (truthy (bronze_data field) \<and> length (strip (the (bronze_data field))) > 2)"

text \<open>The final \<open>if\<close>/\<open>elif\<close> chain over the percentage.\<close>

definition confidence_bucket :: "rat \<Rightarrow> int" where
  "confidence_bucket percentage =
     (if percentage \<ge> 90 then 5
      else if percentage \<ge> 70 then 4
      else if percentage \<ge> 50 then 3
      else if percentage \<ge> 30 then 2
      else 1)"

definition confidence_percentage :: "bronze \<Rightarrow> rat" where
  "confidence_percentage bronze_data =
     (let total_possible = sum_list (map snd field_weights);
          actual_score = fold (\<lambda>fw acc. if field_counts bronze_data (fst fw) then acc + snd fw else acc)
                              field_weights 0
      in (of_int actual_score / of_int total_possible) * 100)"

definition calculate_confidence :: "bronze \<Rightarrow> int" where
  "calculate_confidence bronze_data = confidence_bucket (confidence_percentage bronze_data)"

record gold =
  height_cm_min :: "rat option"
  height_cm_max :: "rat option"
  flowering_days_min :: "int option"
  flowering_days_max :: "int option"
  thc_percentage_min :: "rat option"
  thc_percentage_max :: "rat option"
  cbd_percentage_min :: "rat option"
  cbd_percentage_max :: "rat option"
  sativa_percentage :: "int option"
  indica_percentage :: "int option"
  effects_standardized :: "string option"
  flavors_standardized :: "string option"
  confidence_score :: int

record medallion =
  bronze_layer :: bronze
  gold_layer :: gold

definition process_bronze_to_gold :: "processor \<Rightarrow> bronze \<Rightarrow> error + medallion" where
  "process_bronze_to_gold self bronze_data =
     ebind (extract_height_range self (bronze_data ''height_raw'') False) (\<lambda>h_min.
     ebind (extract_height_range self (bronze_data ''height_raw'') True) (\<lambda>h_max.
     ebind (extract_flowering_range self (bronze_data ''flowering_time_raw'') False) (\<lambda>f_min.
     ebind (extract_flowering_range self (bronze_data ''flowering_time_raw'') True) (\<lambda>f_max.
     ebind (extract_percentage_range (bronze_data ''thc_content_raw'') False) (\<lambda>t_min.
     ebind (extract_percentage_range (bronze_data ''thc_content_raw'') True) (\<lambda>t_max.
     ebind (extract_percentage_range (bronze_data ''cbd_content_raw'') False) (\<lambda>c_min.
     ebind (extract_percentage_range (bronze_data ''cbd_content_raw'') True) (\<lambda>c_max.
     ebind (extract_genetics (bronze_data ''genetics_raw'') ''sativa'') (\<lambda>sat.
     ebind (extract_genetics (bronze_data ''genetics_raw'') ''indica'') (\<lambda>ind.
       Inr \<lparr>bronze_layer = bronze_data,
            gold_layer =
              \<lparr>height_cm_min = h_min, height_cm_max = h_max,
               flowering_days_min = f_min, flowering_days_max = f_max,
               thc_percentage_min = t_min, thc_percentage_max = t_max,
               cbd_percentage_min = c_min, cbd_percentage_max = c_max,
               sativa_percentage = sat, indica_percentage = ind,
               effects_standardized = standardize_effects (bronze_data ''effects_raw''),
               flavors_standardized = standardize_flavors (bronze_data ''flavors_raw''),
               confidence_score = calculate_confidence bronze_data\<rparr>\<rparr>))))))))))"

section \<open>The Outlier Detector (\<open>CannabisOutlierDetector\<close>)\<close>

text \<open>
  A data frame: its column names and its rows under the default index 0, 1, 2, ...
  A row holds a strain name and, per column name, a number; \<open>None\<close> is the missing value
  (NaN), on which every comparison is false. A column that the frame does not have is
  never read.
\<close>

record row =
  name :: "string option"
  vals :: "string \<Rightarrow> rat option"

record dataframe =
  columns :: "string list"
  rows :: "row list"

definition cell :: "dataframe \<Rightarrow> row \<Rightarrow> string \<Rightarrow> rat option" where
  "cell df r c = (if c \<in> set (columns df) then vals r c else None)"

text \<open>\<open>df.loc[idx].get('strain_name', 'Unknown')\<close>\<close>

definition get_strain_name :: "dataframe \<Rightarrow> row \<Rightarrow> string option" where
  "get_strain_name df r = (if ''strain_name'' \<in> set (columns df) then name r else Some ''Unknown'')"

text \<open>The rules of one field: the keys \<open>min\<close>, \<open>max\<close>, \<open>typical_max\<close> and
  \<open>typical_range\<close>, each present or not.\<close>

record rules =
  rule_min :: "rat option"
  rule_max :: "rat option"
  typical_max :: "rat option"
  typical_range :: "(rat \<times> rat) option"

definition validation_rules :: "(string \<times> rules) list" where
  "validation_rules =
     [(''thc_percentage'',
         \<lparr>rule_min = Some 0, rule_max = Some 45, typical_max = Some 35, typical_range = None\<rparr>),
      (''cbd_percentage'',
         \<lparr>rule_min = Some 0, rule_max = Some 30, typical_max = Some 25, typical_range = None\<rparr>),
      (''height_cm'',
         \<lparr>rule_min = Some 30, rule_max = Some 300, typical_max = None,
          typical_range = Some (60, 200)\<rparr>),
      (''flowering_days'',
         \<lparr>rule_min = Some 35, rule_max = Some 120, typical_max = None,
          typical_range = Some (49, 84)\<rparr>),
      (''yield_grams_per_m2'',
         \<lparr>rule_min = Some 50, rule_max = Some 1000, typical_max = None,
          typical_range = Some (300, 600)\<rparr>),
      (''sativa_percentage'',
         \<lparr>rule_min = Some 0, rule_max = Some 100, typical_max = None, typical_range = None\<rparr>),
      (''indica_percentage'',
         \<lparr>rule_min = Some 0, rule_max = Some 100, typical_max = None, typical_range = None\<rparr>),
      (''confidence_score'',
         \<lparr>rule_min = Some 1, rule_max = Some 5, typical_max = None, typical_range = None\<rparr>)]"

text \<open>The instance state \<open>outlier_stats\<close>.\<close>

record outlier_stats =
  stats_total_records :: nat
  stats_outliers_found :: nat
  stats_critical_outliers :: nat
  stats_warnings :: nat

definition CannabisOutlierDetector_init :: outlier_stats where
  "CannabisOutlierDetector_init =
     \<lparr>stats_total_records = 0, stats_outliers_found = 0, stats_critical_outliers = 0,
      stats_warnings = 0\<rparr>"

text \<open>
  One finding. \<open>checked_fields\<close> holds the key \<open>field\<close> or \<open>fields\<close>, \<open>observed\<close> the values read
  from the row (\<open>value\<close>; \<open>min_value\<close>, \<open>max_value\<close>; the two genetics percentages and
  their total; \<open>thc_max\<close>, \<open>cbd_max\<close>). The keys that repeat a bound of the rule or carry a
  fixed note are left out.
\<close>

record finding =
  row_index :: nat
  violation_type :: string
  checked_fields :: "string list"
  observed :: "rat list"
  severity :: string
  strain_name :: "string option"

record pattern_finding =
  pattern_type :: string
  pattern_field :: "string option"
  pattern_percentage :: rat
  pattern_count :: nat
  pattern_total :: nat
  pattern_severity :: string

record summary =
  total_records :: nat
  total_outliers :: nat
  critical_count :: nat
  warning_count :: nat
  clean_records :: int
  outlier_percentage :: rat
  data_quality_score :: rat

record outlier_results =
  critical_outliers :: "finding list"
  warnings :: "finding list"
  impossible_values :: "finding list"
  suspicious_patterns :: "pattern_finding list"
  summary :: summary

text \<open>\<open>df[cond(df[f])].index.tolist()\<close> with the row and the value read at each index.\<close>

definition violations :: "dataframe \<Rightarrow> string \<Rightarrow> (rat \<Rightarrow> bool) \<Rightarrow> (nat \<times> row \<times> rat) list" where
  "violations df f P =
     concat (map (\<lambda>(idx, r). case cell df r f of
                                 None \<Rightarrow> []
                               | Some v \<Rightarrow> if P v then [(idx, r, v)] else [])
                 (zip [0..<length (rows df)] (rows df)))"

text \<open>The same for a condition on two columns.\<close>

definition violations2 ::
  "dataframe \<Rightarrow> string \<Rightarrow> string \<Rightarrow> (rat \<Rightarrow> rat \<Rightarrow> bool) \<Rightarrow> (nat \<times> row \<times> rat \<times> rat) list" where
  "violations2 df f1 f2 P =
     concat (map (\<lambda>(idx, r). case (cell df r f1, cell df r f2) of
                                 (Some v1, Some v2) \<Rightarrow> if P v1 v2 then [(idx, r, v1, v2)] else []
                               | _ \<Rightarrow> [])
                 (zip [0..<length (rows df)] (rows df)))"

definition field_finding :: "dataframe \<Rightarrow> string \<Rightarrow> string \<Rightarrow> string \<Rightarrow> nat \<times> row \<times> rat \<Rightarrow> finding" where
  "field_finding df check_field vtype sev x =
     (case x of (idx, r, v) \<Rightarrow>
        \<lparr>row_index = idx, violation_type = vtype, checked_fields = [check_field], observed = [v],
         severity = sev, strain_name = get_strain_name df r\<rparr>)"

definition check_one_field :: "dataframe \<Rightarrow> rules \<Rightarrow> string \<Rightarrow> finding list" where
  "check_one_field df rules check_field =
     (case rule_min rules of
        None \<Rightarrow> []
      | Some mn \<Rightarrow> map (field_finding df check_field ''below_minimum'' ''critical'')
                      (violations df check_field (\<lambda>v. v < mn)))
     @ (case rule_max rules of
          None \<Rightarrow> []
        | Some mx \<Rightarrow> map (field_finding df check_field ''above_maximum'' ''critical'')
                        (violations df check_field (\<lambda>v. v > mx)))
     @ (case typical_range rules of
          None \<Rightarrow> []
        | Some (typical_min, typical_mx) \<Rightarrow>
            map (field_finding df check_field ''below_typical'' ''warning'')
                (violations df check_field
                   (\<lambda>v. v \<ge> (case rule_min rules of None \<Rightarrow> 0 | Some mn \<Rightarrow> mn) \<and> v < typical_min))
            @ map (field_finding df check_field ''above_typical'' ''warning'')
                (violations df check_field
                   (\<lambda>v. (case rule_max rules of None \<Rightarrow> True | Some mx \<Rightarrow> v \<le> mx) \<and> v > typical_mx)))"

definition check_field_outliers :: "dataframe \<Rightarrow> string \<Rightarrow> rules \<Rightarrow> finding list" where
  "check_field_outliers df field rules =
     (let min_field = field @ ''_min'';
          max_field = field @ ''_max'';
          fields_to_check =
            (if min_field \<in> set (columns df) then [min_field] else [])
            @ (if max_field \<in> set (columns df) then [max_field] else [])
            @ (if field \<in> set (columns df) then [field] else [])
      in concat (map (check_one_field df rules) fields_to_check))"

definition min_max_pairs :: "(string \<times> string) list" where
  "min_max_pairs =
     [(''thc_percentage_min'', ''thc_percentage_max''),
      (''cbd_percentage_min'', ''cbd_percentage_max''),
      (''height_cm_min'', ''height_cm_max''),
      (''flowering_days_min'', ''flowering_days_max''),
      (''yield_grams_per_m2_min'', ''yield_grams_per_m2_max'')]"

definition min_max_findings :: "dataframe \<Rightarrow> finding list" where
  "min_max_findings df =
     concat (map (\<lambda>(min_field, max_field).
        if min_field \<in> set (columns df) \<and> max_field \<in> set (columns df)
        then map (\<lambda>(idx, r, mn, mx).
                    \<lparr>row_index = idx, violation_type = ''min_greater_than_max'',
                     checked_fields = [min_field, max_field], observed = [mn, mx],
                     severity = ''critical'', strain_name = get_strain_name df r\<rparr>)
                 (violations2 df min_field max_field (\<lambda>mn mx. mn > mx))
        else []) min_max_pairs)"

definition genetics_findings :: "dataframe \<Rightarrow> finding list" where
  "genetics_findings df =
     (if ''sativa_percentage'' \<in> set (columns df) \<and> ''indica_percentage'' \<in> set (columns df)
      then map (\<lambda>(idx, r, sativa, indica).
                  let total = sativa + indica in
                  \<lparr>row_index = idx, violation_type = ''genetics_not_100_percent'',
                   checked_fields = [''sativa_percentage'', ''indica_percentage''],
                   observed = [sativa, indica, total],
                   severity = (if \<bar>total - 100\<bar> \<le> 5 then ''warning'' else ''critical''),
                   strain_name = get_strain_name df r\<rparr>)
               (violations2 df ''sativa_percentage'' ''indica_percentage''
                  (\<lambda>sativa indica. \<bar>sativa + indica - 100\<bar> > 1))
      else [])"

definition high_both_findings :: "dataframe \<Rightarrow> finding list" where
  "high_both_findings df =
     (if ''thc_percentage_max'' \<in> set (columns df) \<and> ''cbd_percentage_max'' \<in> set (columns df)
      then map (\<lambda>(idx, r, thc, cbd).
                  \<lparr>row_index = idx, violation_type = ''high_thc_and_cbd'',
                   checked_fields = [''thc_percentage_max'', ''cbd_percentage_max''],
                   observed = [thc, cbd],
                   severity = ''warning'', strain_name = get_strain_name df r\<rparr>)
               (violations2 df ''thc_percentage_max'' ''cbd_percentage_max''
                  (\<lambda>thc cbd. thc > 20 \<and> cbd > 15))
      else [])"

definition check_impossible_combinations :: "dataframe \<Rightarrow> finding list" where
  "check_impossible_combinations df =
     min_max_findings df @ genetics_findings df @ high_both_findings df"

text \<open>\<open>v % 5 == 0\<close>\<close>

definition multiple_of_5 :: "rat \<Rightarrow> bool" where
  "multiple_of_5 v = (of_int \<lfloor>v / 5\<rfloor> * 5 = v)"

definition round_number_findings :: "dataframe \<Rightarrow> pattern_finding list" where
  "round_number_findings df =
     concat (map (\<lambda>field.
        if field \<in> set (columns df)
        then let round_values = length (violations df field multiple_of_5);
                 total_values = length (violations df field (\<lambda>v. True))
             in if total_values > 0
                then let round_percentage = (of_nat round_values / of_nat total_values) * 100
                     in if round_percentage > 80
                        then [\<lparr>pattern_type = ''too_many_round_numbers'',
                               pattern_field = Some field,
                               pattern_percentage = round_percentage,
                               pattern_count = round_values,
                               pattern_total = total_values,
                               pattern_severity = ''warning''\<rparr>]
                        else []
                else []
        else [])
       [''thc_percentage_min'', ''thc_percentage_max'', ''cbd_percentage_min'',
        ''cbd_percentage_max''])"

text \<open>\<open>df.duplicated(subset=available_fields, keep=False).sum()\<close>: the rows whose values on
  the key fields occur in some other row too.\<close>

definition duplicate_count :: "dataframe \<Rightarrow> string list \<Rightarrow> nat" where
  "duplicate_count df available_fields =
     (let keys = map (\<lambda>r. map (cell df r) available_fields) (rows df)
      in length (filter (\<lambda>k. length (filter (\<lambda>k'. k' = k) keys) > 1) keys))"

definition duplicate_findings :: "dataframe \<Rightarrow> pattern_finding list" where
  "duplicate_findings df =
     (if length (rows df) > 100
      then let available_fields =
                 filter (\<lambda>f. f \<in> set (columns df))
                   [''thc_percentage_max'', ''cbd_percentage_max'', ''flowering_days_max'']
           in if length available_fields \<ge> 2
              then let dups = duplicate_count df available_fields
                   in if (of_nat dups :: rat) > of_nat (length (rows df)) * (1 / 10)
                      then [\<lparr>pattern_type = ''high_duplicate_rate'',
                             pattern_field = None,
                             pattern_percentage =
                               (of_nat dups / of_nat (length (rows df))) * 100,
                             pattern_count = dups,
                             pattern_total = length (rows df),
                             pattern_severity = ''warning''\<rparr>]
                      else []
              else []
      else [])"

definition check_suspicious_patterns :: "dataframe \<Rightarrow> pattern_finding list" where
  "check_suspicious_patterns df = round_number_findings df @ duplicate_findings df"

text \<open>\<open>_generate_summary\<close> reads \<open>total_records\<close> from the instance state, writes the three
  counts back into it, and returns the summary.\<close>

definition generate_summary :: "outlier_stats \<Rightarrow> outlier_results \<Rightarrow> outlier_stats \<times> summary" where
  "generate_summary stats res =
     (let n_outliers = length (critical_outliers res) + length (impossible_values res);
          n_critical = length (filter (\<lambda>f. severity f = ''critical'') (critical_outliers res))
                     + length (filter (\<lambda>f. severity f = ''critical'') (impossible_values res));
          n_warning = length (filter (\<lambda>f. severity f = ''warning'') (critical_outliers res))
                    + length (filter (\<lambda>f. severity f = ''warning'') (impossible_values res));
          n = stats_total_records stats
      in (stats\<lparr>stats_outliers_found := n_outliers, stats_critical_outliers := n_critical,
                stats_warnings := n_warning\<rparr>,
          \<lparr>total_records = n,
           total_outliers = n_outliers,
           critical_count = n_critical,
           warning_count = n_warning,
           clean_records = int n - int n_outliers,
           outlier_percentage = (if n > 0 then of_nat n_outliers / of_nat n * 100 else 0),
           data_quality_score =
             (if n > 0 then max 0 (100 - of_nat n_outliers / of_nat n * 100) else 0)\<rparr>))"

definition detect_outliers :: "outlier_stats \<Rightarrow> dataframe \<Rightarrow> outlier_stats \<times> outlier_results" where
  "detect_outliers stats df =
     (let stats1 = stats\<lparr>stats_total_records := length (rows df)\<rparr>;
          field_outliers =
            concat (map (\<lambda>(field, rules).
                           if field \<in> set (columns df) then check_field_outliers df field rules
                           else [])
                        validation_rules);
          res = \<lparr>critical_outliers = field_outliers,
                 warnings = [],
                 impossible_values = check_impossible_combinations df,
                 suspicious_patterns = check_suspicious_patterns df,
                 summary = \<lparr>total_records = 0, total_outliers = 0, critical_count = 0,
                            warning_count = 0, clean_records = 0, outlier_percentage = 0,
                            data_quality_score = 0\<rparr>\<rparr>;
          (stats2, s) = generate_summary stats1 res
      in (stats2, res\<lparr>summary := s\<rparr>))"

text \<open>Sample data frames: the genetics pairs (60, 39), (60, 35), (60, 20); one row with
  \<open>thc_percentage_min = 60\<close>.\<close>

definition genetics_sample :: dataframe where
  "genetics_sample =
     \<lparr>columns = [''strain_name'', ''sativa_percentage'', ''indica_percentage''],
      rows = [\<lparr>name = Some ''A'', vals = Map.empty(''sativa_percentage'' \<mapsto> 60, ''indica_percentage'' \<mapsto> 39)\<rparr>,
              \<lparr>name = Some ''B'', vals = Map.empty(''sativa_percentage'' \<mapsto> 60, ''indica_percentage'' \<mapsto> 35)\<rparr>,
              \<lparr>name = Some ''C'', vals = Map.empty(''sativa_percentage'' \<mapsto> 60, ''indica_percentage'' \<mapsto> 20)\<rparr>]\<rparr>"

definition thc_sample :: dataframe where
  "thc_sample =
     \<lparr>columns = [''strain_name'', ''thc_percentage_min''],
      rows = [\<lparr>name = Some ''Impossible Strain'',
               vals = Map.empty(''thc_percentage_min'' \<mapsto> 60)\<rparr>]\<rparr>"

section \<open>The Extractor (\<open>CannabisDataExtractor\<close>)\<close>

text \<open>
  Values stored in a dictionary: texts, and whatever a JSON document holds.
  A dictionary is the list of its assignments, latest first; a lookup finds the latest
  assignment to the key, and a dictionary is empty (falsy) iff nothing was assigned.
\<close>

datatype json =
    JNull
  | JBool bool
  | JNum rat
  | JStr string
  | JArr "json list"
  | JObj "(string \<times> json) list"

type_synonym pydict = "(string \<times> json) list"

definition dict_get :: "pydict \<Rightarrow> string \<Rightarrow> json option" where
  "dict_get d k = map_of d k"

definition dict_set :: "pydict \<Rightarrow> string \<Rightarrow> json \<Rightarrow> pydict" where
  "dict_set d k v = (k, v) # d"

text \<open>\<open>d1.update(d2)\<close>\<close>

definition dict_update :: "pydict \<Rightarrow> pydict \<Rightarrow> pydict" where
  "dict_update d1 d2 = d2 @ d1"

text \<open>
  The parsed document, as the answers to the queries the Extractor puts to it:
  \<^item> \<open>tables\<close>: \<open>find_all('table')\<close>; per table its \<open>get_text()\<close> and, per \<open>tr\<close>, the
    \<open>get_text(strip=True)\<close> of its \<open>td\<close>/\<open>th\<close> cells;
  \<^item> \<open>select\<close>: per CSS selector, the \<open>get_text(separator=' ', strip=True)\<close> of the
    selected elements;
  \<^item> \<open>page_text\<close>: \<open>soup.get_text(separator=' ', strip=True)\<close>;
  \<^item> \<open>rating_elements\<close>: the \<open>img\<close>/\<open>span\<close>/\<open>div\<close> elements of a star, rating or score
    class: an image with its \<open>alt\<close> attribute, or another element with the number of its
    star-class descendants;
  \<^item> \<open>difficulty_elements\<close>: the \<open>get_text(strip=True)\<close> of the elements of a difficulty
    class;
  \<^item> \<open>meta_description\<close>: the description \<open>meta\<close> tag, if any, with its \<open>content\<close>
    attribute, if any;
  \<^item> \<open>title_tag\<close>: the \<open>get_text(strip=True)\<close> of the \<open>title\<close> tag, if any;
  \<^item> \<open>json_ld_scripts\<close>: per \<open>application/ld+json\<close> script its \<open>.string\<close>, which is
    \<open>None\<close> for a script tag that does not have exactly one child.
\<close>

record table =
  table_text :: string
  table_rows :: "string list list"

datatype rating_element = Img "string option" | Other nat

record soup =
  tables :: "table list"
  select :: "string \<Rightarrow> string list"
  page_text :: string
  rating_elements :: "rating_element list"
  difficulty_elements :: "string list"
  meta_description :: "string option option"
  title_tag :: "string option"
  json_ld_scripts :: "string option list"

record extraction_stats =
  tables_found :: nat
  descriptions_found :: nat
  patterns_matched :: nat
  images_processed :: nat

definition CannabisDataExtractor_init :: extraction_stats where
  "CannabisDataExtractor_init =
     \<lparr>tables_found = 0, descriptions_found = 0, patterns_matched = 0, images_processed = 0\<rparr>"

record extracted_data =
  source_url :: string
  extraction_timestamp :: string
  raw_data :: pydict

text \<open>A number in decimal, as an f-string writes it.\<close>

function str_of_nat :: "nat \<Rightarrow> string" where
  "str_of_nat n =
     (if n < 10 then [char_of (48 + n)] else str_of_nat (n div 10) @ [char_of (48 + n mod 10)])"
  by pat_completeness auto
termination
  by (relation "measure id") auto

definition is_specification_table :: "table \<Rightarrow> bool" where
  "is_specification_table t =
     (let text_lower = lower (table_text t);
          spec_keywords = [''thc'', ''cbd'', ''flowering'', ''height'', ''yield'', ''genetics'',
                           ''sativa'', ''indica''];
          keyword_count = length (filter (\<lambda>keyword. contains keyword text_lower) spec_keywords)
      in keyword_count \<ge> 2)"

definition field_mappings :: "(string \<times> string list) list" where
  "field_mappings =
     [(''thc'', [''thc'', ''thc content'', ''thc level'', ''thc %'', ''thc percentage'']),
      (''cbd'', [''cbd'', ''cbd content'', ''cbd level'', ''cbd %'', ''cbd percentage'']),
      (''flowering_time'', [''flowering time'', ''flowering period'', ''flower time'',
                            ''bloom time'', ''flowering'']),
      (''height'', [''height'', ''plant height'', ''size'', ''grows to'', ''tall'']),
      (''yield'', [''yield'', ''harvest'', ''production'', ''output'']),
      (''genetics'', [''genetics'', ''genetic background'', ''lineage'', ''breeding'', ''cross'']),
      (''effects'', [''effects'', ''effect'', ''high'', ''buzz'']),
      (''flavors'', [''flavor'', ''flavour'', ''taste'', ''aroma'', ''smell''])]"

definition map_table_field :: "string \<Rightarrow> string option" where
  "map_table_field key_text =
     (let key_lower = strip (lower key_text)
      in map_option fst
           (find (\<lambda>fk. list_ex (\<lambda>keyword. contains keyword key_lower) (snd fk)) field_mappings))"

definition table_row_step :: "nat \<Rightarrow> string list \<Rightarrow> pydict \<Rightarrow> pydict" where
  "table_row_step table_idx cells table_data =
     (case cells of
        key_cell # value_cell # _ \<Rightarrow>
          if key_cell \<noteq> [] \<and> value_cell \<noteq> []
          then (case map_table_field key_cell of
                  Some field_name \<Rightarrow>
                    dict_set (dict_set table_data (field_name @ ''_raw'') (JStr value_cell))
                      (field_name @ ''_source'') (JStr (''Table '' @ str_of_nat (table_idx + 1)))
                | None \<Rightarrow> table_data)
          else table_data
      | _ \<Rightarrow> table_data)"

definition extract_from_tables :: "soup \<Rightarrow> pydict" where
  "extract_from_tables sp =
     fold (\<lambda>(table_idx, t) table_data.
             if is_specification_table t
             then fold (table_row_step table_idx) (table_rows t) table_data
             else table_data)
          (zip [0..<length (tables sp)] (tables sp)) []"

text \<open>\<open>re.split(r'[.!?]+', text)\<close>\<close>

definition is_terminator :: "char \<Rightarrow> bool" where
  "is_terminator c = (c = CHR ''.'' \<or> c = CHR ''!'' \<or> c = CHR ''?'')"

function split_sentences :: "string \<Rightarrow> string \<Rightarrow> string list" where
  "split_sentences cur [] = [rev cur]"
| "split_sentences cur (c # cs) =
     (if is_terminator c then rev cur # split_sentences [] (dropWhile is_terminator cs)
      else split_sentences (c # cur) cs)"
  by pat_completeness auto
termination
  by (relation "measure (\<lambda>(cur, s). length s)")
     (auto simp: length_dropWhile_le less_Suc_eq_le)

definition mention_step :: "string \<Rightarrow> string list \<Rightarrow> string \<Rightarrow> pydict \<Rightarrow> pydict" where
  "mention_step sentence keywords category contextual_data =
     (if list_ex (\<lambda>keyword. contains keyword (lower sentence)) keywords
      then (if dict_get contextual_data (category @ ''_context_raw'') = None
            then dict_set (dict_set contextual_data (category @ ''_context_raw'') (JStr sentence))
                   (category @ ''_context_source'') (JStr ''Description context'')
            else contextual_data)
      else contextual_data)"

definition extract_contextual_mentions :: "string \<Rightarrow> pydict" where
  "extract_contextual_mentions txt =
     fold (\<lambda>s contextual_data.
             let sentence = strip s in
             if sentence = [] then contextual_data
             else mention_step sentence
                    [''indoor'', ''outdoor'', ''hydro'', ''soil'', ''climate'', ''temperature'']
                    ''growing''
                    (mention_step sentence
                       [''citrus'', ''lemon'', ''berry'', ''sweet'', ''earthy'', ''pine'',
                        ''diesel'', ''fruity'']
                       ''flavors''
                       (mention_step sentence
                          [''relaxing'', ''euphoric'', ''uplifting'', ''energetic'', ''creative'',
                           ''focused'', ''happy'', ''sleepy'']
                          ''effects'' contextual_data)))
          (split_sentences [] txt) []"

definition description_selectors :: "string list" where
  \<open>description_selectors =
     [''.product-description'', ''.strain-description'', ''.description'', ''.product-details'',
      ''.strain-info'', ''.product-content'', ''[class*="description"]'', ''[class*="details"]'']\<close>

definition extract_from_descriptions :: "soup \<Rightarrow> pydict" where
  "extract_from_descriptions sp =
     (let all_descriptions =
            concat (map (\<lambda>selector. filter (\<lambda>t. t \<noteq> [] \<and> length t > 20) (select sp selector))
                        description_selectors)
      in if all_descriptions \<noteq> []
         then let full_description = join '' '' all_descriptions
              in dict_update
                   (dict_set (dict_set [] ''description_raw'' (JStr full_description))
                      ''description_source'' (JStr ''Product descriptions''))
                   (extract_contextual_mentions full_description)
         else [])"

text \<open>The extraction patterns. \<open>field_tail\<close> is \<open>(?:\.|\n|$)\<close>, \<open>field_text\<close> is
  \<open>([^\n\.]+?)\<close>, \<open>int_range\<close> is \<open>[0-9]+(?:\s*-\s*[0-9]+)?\<close>.\<close>

definition field_tail :: regex where
  "field_tail = alts [Lit CHR ''.'', Lit (CHR 0x0A), Eol]"

definition field_text :: regex where
  "field_text = Group 1 (LazyPlus (NoneOf [CHR 0x0A, CHR ''.'']))"

definition int_range :: regex where
  "int_range = Cat (Plus Digit) (Opt (seq [Star Space, Lit CHR ''-'', Star Space, Plus Digit]))"

definition words :: "string list \<Rightarrow> regex" where
  "words ws = alts (map str ws)"

text \<open>\<open>X:?\s*([^\n\.]+?)(?:\.|\n|$)\<close>,
  \<open>(?:X|x)\s*(?:content|level|percentage)?:?\s*([^\n\.]+?)(?:\.|\n|$)\<close> and
  \<open>([0-9]+(?:\.[0-9]+)?(?:\s*-\s*[0-9]+(?:\.[0-9]+)?)?\s*%\s*X)\<close> for \<open>X\<close> = THC, CBD.\<close>

definition potency_patterns :: "string \<Rightarrow> string \<Rightarrow> regex list" where
  "potency_patterns upper_name lower_name =
     [seq [str upper_name, Opt (Lit CHR '':''), Star Space, field_text, field_tail],
      seq [Alt (str upper_name) (str lower_name), Star Space,
           Opt (words [''content'', ''level'', ''percentage'']), Opt (Lit CHR '':''), Star Space,
           field_text, field_tail],
      Group 1 (seq [decimal,
                    Opt (seq [Star Space, Lit CHR ''-'', Star Space, decimal]),
                    Star Space, Lit CHR ''%'', Star Space, str upper_name])]"

definition patterns :: "(string \<times> regex list) list" where
  "patterns =
     [(''thc_content'', potency_patterns ''THC'' ''thc''),
      (''cbd_content'', potency_patterns ''CBD'' ''cbd''),
      (''flowering_time'',
         [seq [words [''flowering'', ''flower''], Plus Space, words [''time'', ''period''],
               Opt (Lit CHR '':''), Star Space, field_text, field_tail],
          seq [Alt (Cat (str ''bloom'') (Opt (Lit CHR ''s''))) (Cat (str ''flower'') (Opt (Lit CHR ''s''))),
               Plus Space, words [''in'', ''for'', ''after''], Star Space, field_text, field_tail],
          Group 1 (seq [int_range, Star Space,
                        alts [Cat (str ''week'') (Opt (Lit CHR ''s'')),
                              Cat (str ''day'') (Opt (Lit CHR ''s'')),
                              Cat (str ''wk'') (Opt (Lit CHR ''s''))],
                        Star Space, words [''flowering'', ''flower'', ''bloom'']])]),
      (''height'',
         [seq [alts [str ''height'', str ''tall'', Cat (str ''grow'') (Opt (Lit CHR ''s''))],
               Opt (Lit CHR '':''), Star Space, field_text, field_tail],
          seq [words [''reaches'', ''up to'', ''grows to''], Star Space, field_text, field_tail],
          Group 1 (seq [int_range, Star Space,
                        alts [str ''cm'', Cat (str ''fee'') (Opt (Lit CHR ''t'')), str ''ft'',
                              Cat (str ''inche'') (Opt (Lit CHR ''s'')), str ''in''],
                        Star Space, words [''tall'', ''high'', ''height'']])]),
      (''yield'',
         [seq [alts [str ''yield'', str ''harvest'', Cat (str ''produce'') (Opt (Lit CHR ''s''))],
               Opt (Lit CHR '':''), Star Space, field_text, field_tail],
          seq [words [''up to'', ''around'', ''approximately''], Star Space, field_text, field_tail],
          Group 1 (seq [int_range, Star Space,
                        alts [str ''g'', Cat (str ''gram'') (Opt (Lit CHR ''s'')), str ''oz'',
                              Cat (str ''ounce'') (Opt (Lit CHR ''s''))],
                        Star Space, words [''per'', ''/'', ''m2'', ''plant'']])]),
      (''genetics'',
         [seq [words [''genetics'', ''lineage'', ''cross'', ''bred from''],
               Opt (Lit CHR '':''), Star Space, field_text, field_tail],
          seq [Group 1 (seq [Plus Digit, Star Space, Lit CHR ''%'', Star Space,
                             words [''sativa'', ''indica''],
                             Opt (Cat (Star Space) (LazyStar (NoneOf [CHR 0x0A, CHR ''.''])))]),
               field_tail],
          seq [words [''hybrid'', ''cross''], Plus Space, words [''of'', ''between''], Star Space,
               field_text, field_tail]])]"

text \<open>The loop over the matches of one pattern: the first match whose stripped first group
  is not empty, where the \<open>break\<close> leaves this loop.\<close>

fun first_nonblank :: "groups list \<Rightarrow> error + string option" where
  "first_nonblank [] = Inr None"
| "first_nonblank (m # rest) =
     (case group m 1 of
        None \<Rightarrow> Inl AttributeError
      | Some g \<Rightarrow> if strip g \<noteq> [] then Inr (Some (strip g)) else first_nonblank rest)"

text \<open>The loop over the patterns of one field: every pattern is tried, and each one that
  finds such a match assigns the field.\<close>

fun field_loop :: "string \<Rightarrow> string \<Rightarrow> regex list \<Rightarrow> pydict \<Rightarrow> error + pydict" where
  "field_loop txt field_name [] pattern_data = Inr pattern_data"
| "field_loop txt field_name (pattern # rest) pattern_data =
     ebind (first_nonblank (finditer pattern True txt)) (\<lambda>found.
       field_loop txt field_name rest
         (case found of
            Some g \<Rightarrow> dict_set (dict_set pattern_data (field_name @ ''_raw'') (JStr g))
                        (field_name @ ''_source'') (JStr ''Pattern matching'')
          | None \<Rightarrow> pattern_data))"

fun fields_loop :: "string \<Rightarrow> (string \<times> regex list) list \<Rightarrow> pydict \<Rightarrow> error + pydict" where
  "fields_loop txt [] pattern_data = Inr pattern_data"
| "fields_loop txt ((field_name, field_patterns) # rest) pattern_data =
     ebind (field_loop txt field_name field_patterns pattern_data) (fields_loop txt rest)"

definition extract_with_patterns :: "soup \<Rightarrow> error + pydict" where
  "extract_with_patterns sp = fields_loop (page_text sp) patterns []"

definition rating_step :: "rating_element \<Rightarrow> pydict \<Rightarrow> pydict" where
  "rating_step element image_data =
     (case element of
        Img alt \<Rightarrow>
          (let alt_text = (case alt of None \<Rightarrow> [] | Some a \<Rightarrow> a) in
           if contains ''star'' (lower alt_text) \<or> contains ''rating'' (lower alt_text)
           then dict_set (dict_set image_data ''rating_visual_raw''
                            (JStr (''[Image: '' @ alt_text @ '']'')))
                  ''rating_visual_source'' (JStr ''Image alt text'')
           else image_data)
      | Other stars \<Rightarrow>
          if stars > 0
          then dict_set (dict_set image_data ''rating_visual_raw''
                           (JStr (''[Visual: '' @ str_of_nat stars @ '' star elements]'')))
                 ''rating_visual_source'' (JStr ''Visual elements'')
          else image_data)"

definition extract_from_images :: "soup \<Rightarrow> pydict" where
  "extract_from_images sp =
     (let image_data = fold rating_step (rating_elements sp) []
      in case find (\<lambda>t. t \<noteq> []) (difficulty_elements sp) of
           Some t \<Rightarrow> dict_set (dict_set image_data ''difficulty_raw'' (JStr t))
                       ''difficulty_source'' (JStr ''Visual indicator'')
         | None \<Rightarrow> image_data)"

text \<open>
  One JSON-LD script. \<open>loads\<close> is \<open>json.loads\<close> on a text, with \<open>None\<close> for a
  \<open>JSONDecodeError\<close>; on \<open>None\<close> instead of a text, \<open>json.loads\<close> raises \<open>TypeError\<close>.
  The \<open>except\<close> clause catches \<open>JSONDecodeError\<close> and \<open>AttributeError\<close> only.
\<close>

definition json_ld_step :: "(string \<Rightarrow> json option) \<Rightarrow> string option \<Rightarrow> pydict \<Rightarrow> error + pydict" where
  "json_ld_step loads script_string meta_data =
     (case script_string of
        None \<Rightarrow> Inl TypeError
      | Some s \<Rightarrow>
          (case loads s of
             None \<Rightarrow> Inr meta_data
           | Some (JObj structured_data) \<Rightarrow>
               (let d1 = (case map_of structured_data ''name'' of
                            Some v \<Rightarrow> dict_set (dict_set meta_data ''structured_name_raw'' v)
                                        ''structured_name_source'' (JStr ''JSON-LD structured data'')
                          | None \<Rightarrow> meta_data)
                in Inr (case map_of structured_data ''description'' of
                          Some v \<Rightarrow> dict_set (dict_set d1 ''structured_description_raw'' v)
                                      ''structured_description_source''
                                      (JStr ''JSON-LD structured data'')
                        | None \<Rightarrow> d1))
           | Some _ \<Rightarrow> Inr meta_data))"

fun json_ld_loop :: "(string \<Rightarrow> json option) \<Rightarrow> string option list \<Rightarrow> pydict \<Rightarrow> error + pydict" where
  "json_ld_loop loads [] meta_data = Inr meta_data"
| "json_ld_loop loads (script # rest) meta_data =
     ebind (json_ld_step loads script meta_data) (json_ld_loop loads rest)"

definition extract_metadata :: "(string \<Rightarrow> json option) \<Rightarrow> soup \<Rightarrow> error + pydict" where
  "extract_metadata loads sp =
     (let d1 = (case meta_description sp of
                  Some (Some content) \<Rightarrow>
                    if content \<noteq> []
                    then dict_set (dict_set [] ''meta_description_raw'' (JStr content))
                           ''meta_description_source'' (JStr ''HTML meta tag'')
                    else []
                | _ \<Rightarrow> []);
          d2 = (case title_tag sp of
                  Some title_text \<Rightarrow>
                    if title_text \<noteq> []
                    then dict_set (dict_set d1 ''page_title_raw'' (JStr title_text))
                           ''page_title_source'' (JStr ''HTML title tag'')
                    else d1
                | None \<Rightarrow> d1)
      in json_ld_loop loads (json_ld_scripts sp) d2)"

text \<open>\<open>extract_strain_data\<close> on the parsed document; \<open>now\<close> is the timestamp read from
  the clock. The counters of the instance are passed in and returned.\<close>

definition extract_strain_data ::
  "(string \<Rightarrow> json option) \<Rightarrow> string \<Rightarrow> extraction_stats \<Rightarrow> soup \<Rightarrow> string
     \<Rightarrow> error + (extraction_stats \<times> extracted_data)" where
  "extract_strain_data loads now stats sp url =
     (let table_data = extract_from_tables sp;
          raw1 = (if table_data \<noteq> [] then dict_update [] table_data else []);
          stats1 = (if table_data \<noteq> [] then stats\<lparr>tables_found := tables_found stats + 1\<rparr>
                    else stats);
          desc_data = extract_from_descriptions sp;
          raw2 = (if desc_data \<noteq> [] then dict_update raw1 desc_data else raw1);
          stats2 = (if desc_data \<noteq> []
                    then stats1\<lparr>descriptions_found := descriptions_found stats1 + 1\<rparr>
                    else stats1)
      in ebind (extract_with_patterns sp) (\<lambda>pattern_data.
           let raw3 = (if pattern_data \<noteq> [] then dict_update raw2 pattern_data else raw2);
               stats3 = (if pattern_data \<noteq> []
                         then stats2\<lparr>patterns_matched := patterns_matched stats2 + 1\<rparr>
                         else stats2);
               image_data = extract_from_images sp;
               raw4 = (if image_data \<noteq> [] then dict_update raw3 image_data else raw3);
               stats4 = (if image_data \<noteq> []
                         then stats3\<lparr>images_processed := images_processed stats3 + 1\<rparr>
                         else stats3)
           in ebind (extract_metadata loads sp) (\<lambda>meta_data.
                let raw5 = (if meta_data \<noteq> [] then dict_update raw4 meta_data else raw4)
                in Inr (stats4,
                        \<lparr>source_url = url, extraction_timestamp = now, raw_data = raw5\<rparr>))))"

text \<open>Sample documents: a page whose text names a potency twice; a page with a
  specification table; a page with an empty JSON-LD script.\<close>

definition empty_soup :: soup where
  "empty_soup =
     \<lparr>tables = [], select = (\<lambda>selector. []), page_text = [], rating_elements = [],
      difficulty_elements = [], meta_description = None, title_tag = None,
      json_ld_scripts = []\<rparr>"

definition potency_page :: soup where
  "potency_page = empty_soup\<lparr>page_text := ''THC: high. 18% THC''\<rparr>"

definition table_page :: soup where
  "table_page =
     empty_soup\<lparr>tables := [\<lparr>table_text = ''Height120-180cmTHC18%'',
                              table_rows = [[''Height'', ''120-180cm''], [''THC'', ''18%'']]\<rparr>],
                page_text := ''Height 120-180cm THC 18%''\<rparr>"

definition empty_script_page :: soup where
  "empty_script_page = empty_soup\<lparr>json_ld_scripts := [None]\<rparr>"

section \<open>Shapes of patterns and of captured texts\<close>

text \<open>The groups that a pattern can set.\<close>

primrec group_ids :: "regex \<Rightarrow> nat set" where
  "group_ids (Lit c) = {}"
| "group_ids Digit = {}"
| "group_ids Space = {}"
| "group_ids (NoneOf cs) = {}"
| "group_ids Eol = {}"
| "group_ids Eps = {}"
| "group_ids (Cat a b) = group_ids a \<union> group_ids b"
| "group_ids (Alt a b) = group_ids a \<union> group_ids b"
| "group_ids (Star r) = group_ids r"
| "group_ids (LazyStar r) = group_ids r"
| "group_ids (Group n r) = insert n (group_ids r)"

text \<open>The texts that \<open>\d+\<close> and \<open>\d+(?:\.\d+)?\<close> match.\<close>

definition is_digits :: "string \<Rightarrow> bool" where
  "is_digits p \<longleftrightarrow> p \<noteq> [] \<and> list_all is_digit p"

definition is_decimal :: "string \<Rightarrow> bool" where
  "is_decimal p \<longleftrightarrow>
     (\<exists>d1 d2. is_digits d1 \<and> (p = d1 \<or> (is_digits d2 \<and> p = d1 @ CHR ''.'' # d2)))"

section \<open>The Normalizer as method calls on a heap\<close>

text \<open>
  Python passes the instance and the bronze dictionary by reference, so a method could
  assign to either. To say that \<open>process_bronze_to_gold\<close> does not, the objects live in a
  heap: an address below \<open>lim\<close> is allocated and holds an object. The objects are the
  instance with its \<open>conversion_rules\<close>, a dictionary of verbatim texts, the dictionary
  \<open>gold_data\<close>, and the returned dictionary, whose entries \<open>bronze\<close> and \<open>gold\<close> are
  references. Texts and numbers are immutable values and are passed as such. The
  dictionaries that a method builds for its own use (the mappings, the weights) cannot be
  reached after the call and are not allocated here; the cache of compiled patterns that
  the \<open>re\<close> module keeps is not part of the model.
\<close>

type_synonym addr = nat

datatype pyobj =
    ProcessorObj processor
  | BronzeObj bronze
  | GoldObj gold
  | MedallionObj addr addr

record heap =
  objs :: "addr \<Rightarrow> pyobj option"
  lim :: addr

definition load :: "heap \<Rightarrow> addr \<Rightarrow> pyobj option" where
  "load h a = (if a < lim h then objs h a else None)"

text \<open>A computation takes the heap and raises, or returns a value and the heap it leaves.\<close>

type_synonym 'a prog = "heap \<Rightarrow> error + ('a \<times> heap)"

definition ret :: "'a \<Rightarrow> 'a prog" where
  "ret v h = Inr (v, h)"

definition pbind :: "'a prog \<Rightarrow> ('a \<Rightarrow> 'b prog) \<Rightarrow> 'b prog" where
  "pbind m f h = (case m h of Inl e \<Rightarrow> Inl e | Inr (v, h') \<Rightarrow> f v h')"

text \<open>A computation on values only: it raises or returns, and touches no object.\<close>

definition lift :: "error + 'a \<Rightarrow> 'a prog" where
  "lift x h = (case x of Inl e \<Rightarrow> Inl e | Inr v \<Rightarrow> Inr (v, h))"

text \<open>A new object: it is stored at the first free address.\<close>

definition alloc :: "pyobj \<Rightarrow> addr prog" where
  "alloc obj h = Inr (lim h, h\<lparr>objs := (objs h)(lim h \<mapsto> obj), lim := Suc (lim h)\<rparr>)"

text \<open>\<open>self.conversion_rules\<close>\<close>

definition conversion_rules :: "addr \<Rightarrow> processor prog" where
  "conversion_rules self h =
     (case load h self of Some (ProcessorObj p) \<Rightarrow> Inr (p, h) | _ \<Rightarrow> Inl AttributeError)"

text \<open>\<open>bronze_data.get(key)\<close>\<close>

definition bronze_get :: "addr \<Rightarrow> string \<Rightarrow> string option prog" where
  "bronze_get bronze_data key h =
     (case load h bronze_data of
        Some (BronzeObj d) \<Rightarrow> Inr (d key, h)
      | _ \<Rightarrow> Inl AttributeError)"

text \<open>The entries of the dictionary, as \<open>_calculate_confidence\<close> reads them with \<open>get\<close> and
  subscripts.\<close>

definition bronze_items :: "addr \<Rightarrow> bronze prog" where
  "bronze_items bronze_data h =
     (case load h bronze_data of
        Some (BronzeObj d) \<Rightarrow> Inr (d, h)
      | _ \<Rightarrow> Inl AttributeError)"

text \<open>
  The methods. \<open>_extract_height_range\<close> and \<open>_extract_flowering_range\<close> read the rule table
  of the instance; \<open>_extract_percentage_range\<close>, \<open>_extract_genetics\<close>,
  \<open>_standardize_effects\<close> and \<open>_standardize_flavors\<close> work on their text argument alone;
  \<open>_calculate_confidence\<close> reads the bronze dictionary.
\<close>

definition extract_height_range_m :: "addr \<Rightarrow> string option \<Rightarrow> bool \<Rightarrow> rat option prog" where
  "extract_height_range_m self height_raw max_val =
     pbind (conversion_rules self) (\<lambda>rules. lift (extract_height_range rules height_raw max_val))"

definition extract_flowering_range_m :: "addr \<Rightarrow> string option \<Rightarrow> bool \<Rightarrow> int option prog" where
  "extract_flowering_range_m self flowering_raw max_val =
     pbind (conversion_rules self)
       (\<lambda>rules. lift (extract_flowering_range rules flowering_raw max_val))"

definition extract_percentage_range_m :: "addr \<Rightarrow> string option \<Rightarrow> bool \<Rightarrow> rat option prog" where
  "extract_percentage_range_m self percentage_raw max_val =
     lift (extract_percentage_range percentage_raw max_val)"

definition extract_genetics_m :: "addr \<Rightarrow> string option \<Rightarrow> string \<Rightarrow> int option prog" where
  "extract_genetics_m self genetics_raw genetics_type =
     lift (extract_genetics genetics_raw genetics_type)"

definition standardize_effects_m :: "addr \<Rightarrow> string option \<Rightarrow> string option prog" where
  "standardize_effects_m self effects_raw = ret (standardize_effects effects_raw)"

definition standardize_flavors_m :: "addr \<Rightarrow> string option \<Rightarrow> string option prog" where
  "standardize_flavors_m self flavors_raw = ret (standardize_flavors flavors_raw)"

definition calculate_confidence_m :: "addr \<Rightarrow> addr \<Rightarrow> int prog" where
  "calculate_confidence_m self bronze_data =
     pbind (bronze_items bronze_data) (\<lambda>d. ret (calculate_confidence d))"

text \<open>\<open>process_bronze_to_gold\<close>: the thirteen entries of \<open>gold_data\<close> in the order of the
  source, each argument read from the bronze dictionary just before its call; then the two new
  dictionaries. The value returned is the reference to the second.\<close>

definition process_bronze_to_gold_m :: "addr \<Rightarrow> addr \<Rightarrow> addr prog" where
  "process_bronze_to_gold_m self bronze_data =
     pbind (bronze_get bronze_data ''height_raw'') (\<lambda>a1.
     pbind (extract_height_range_m self a1 False) (\<lambda>h_min.
     pbind (bronze_get bronze_data ''height_raw'') (\<lambda>a2.
     pbind (extract_height_range_m self a2 True) (\<lambda>h_max.
     pbind (bronze_get bronze_data ''flowering_time_raw'') (\<lambda>a3.
     pbind (extract_flowering_range_m self a3 False) (\<lambda>f_min.
     pbind (bronze_get bronze_data ''flowering_time_raw'') (\<lambda>a4.
     pbind (extract_flowering_range_m self a4 True) (\<lambda>f_max.
     pbind (bronze_get bronze_data ''thc_content_raw'') (\<lambda>a5.
     pbind (extract_percentage_range_m self a5 False) (\<lambda>t_min.
     pbind (bronze_get bronze_data ''thc_content_raw'') (\<lambda>a6.
     pbind (extract_percentage_range_m self a6 True) (\<lambda>t_max.
     pbind (bronze_get bronze_data ''cbd_content_raw'') (\<lambda>a7.
     pbind (extract_percentage_range_m self a7 False) (\<lambda>c_min.
     pbind (bronze_get bronze_data ''cbd_content_raw'') (\<lambda>a8.
     pbind (extract_percentage_range_m self a8 True) (\<lambda>c_max.
     pbind (bronze_get bronze_data ''genetics_raw'') (\<lambda>a9.
     pbind (extract_genetics_m self a9 ''sativa'') (\<lambda>sat.
     pbind (bronze_get bronze_data ''genetics_raw'') (\<lambda>a10.
     pbind (extract_genetics_m self a10 ''indica'') (\<lambda>ind.
     pbind (bronze_get bronze_data ''effects_raw'') (\<lambda>a11.
     pbind (standardize_effects_m self a11) (\<lambda>effects.
     pbind (bronze_get bronze_data ''flavors_raw'') (\<lambda>a12.
     pbind (standardize_flavors_m self a12) (\<lambda>flavors.
     pbind (calculate_confidence_m self bronze_data) (\<lambda>confidence.
     pbind (alloc (GoldObj
              \<lparr>height_cm_min = h_min, height_cm_max = h_max,
               flowering_days_min = f_min, flowering_days_max = f_max,
               thc_percentage_min = t_min, thc_percentage_max = t_max,
               cbd_percentage_min = c_min, cbd_percentage_max = c_max,
               sativa_percentage = sat, indica_percentage = ind,
               effects_standardized = effects,
               flavors_standardized = flavors,
               confidence_score = confidence\<rparr>)) (\<lambda>gold_data.
     alloc (MedallionObj bronze_data gold_data)))))))))))))))))))))))))))"

text \<open>The heap after the two dictionaries of a call have been allocated: \<open>gold_data\<close> at
  the first free address, the returned dictionary at the next.\<close>

definition medallion_heap :: "heap \<Rightarrow> addr \<Rightarrow> gold \<Rightarrow> heap" where
  "medallion_heap h bronze_data g =
     h\<lparr>objs := (objs h)(lim h \<mapsto> GoldObj g, Suc (lim h) \<mapsto> MedallionObj bronze_data (lim h)),
       lim := Suc (Suc (lim h))\<rparr>"

text \<open>A sample heap: the instance at address 0 and a bronze dictionary at address 1.\<close>

definition sample_bronze :: bronze where
  "sample_bronze = Map.empty(''height_raw'' \<mapsto> ''80-120cm'', ''thc_content_raw'' \<mapsto> ''18%'')"

definition sample_heap :: heap where
  "sample_heap =
     \<lparr>objs = Map.empty(0 \<mapsto> ProcessorObj MedallionProcessor_init, 1 \<mapsto> BronzeObj sample_bronze),
      lim = 2\<rparr>"

section \<open>Character classes, bit by bit\<close>

text \<open>The character classes read off the eight bits of a character (lowest bit first);
  evaluation uses these equations instead of the arithmetic on code points.\<close>

lemma is_digit_bits [code]:
  "is_digit (Char b0 b1 b2 b3 b4 b5 b6 b7) =
     (\<not> b7 \<and> \<not> b6 \<and> b5 \<and> b4 \<and> \<not> (b3 \<and> (b2 \<or> b1)))"
  by (cases b0; cases b1; cases b2; cases b3; cases b4; cases b5; cases b6; cases b7)
     (simp_all add: is_digit_def code_point_def)

lemma is_space_bits [code]:
  "is_space (Char b0 b1 b2 b3 b4 b5 b6 b7) =
     (if b7 then \<not> b6 \<and> \<not> b4 \<and> \<not> b3 \<and> \<not> b1 \<and> (b5 \<and> \<not> b2 \<and> \<not> b0 \<or> \<not> b5 \<and> b2 \<and> b0)
      else \<not> b6 \<and> (if b5 then \<not> b4 \<and> \<not> b3 \<and> \<not> b2 \<and> \<not> b1 \<and> \<not> b0
                    else if b4 then b3 \<and> b2
                    else b3 \<and> (if b2 then \<not> b1 else b1 \<or> b0)))"
  by (cases b0; cases b1; cases b2; cases b3; cases b4; cases b5; cases b6; cases b7)
     (simp_all add: is_space_def code_point_def)

lemma lower_char_bits [code]:
  "lower_char (Char b0 b1 b2 b3 b4 b5 b6 b7) =
     (if b6 \<and> \<not> b5 \<and>
         (if b7 then \<not> (b2 \<and> b1 \<and> b0 \<and> b4)
          else (b0 \<or> b1 \<or> b2 \<or> b3 \<or> b4) \<and> \<not> (b4 \<and> b3 \<and> (b2 \<or> b1 \<and> b0)))
      then Char b0 b1 b2 b3 b4 True b6 b7
      else Char b0 b1 b2 b3 b4 b5 b6 b7)"
  by (cases b0; cases b1; cases b2; cases b3; cases b4; cases b5; cases b6; cases b7)
     (simp_all add: lower_char_def code_point_def char_of_eq_iff)

section \<open>Verified properties\<close>

subsection \<open>Confidence score\<close>

lemma strip_Nil: "strip [] = []"
  by (simp add: strip_def)

lemma field_counts_iff:
  "field_counts b f \<longleftrightarrow> (\<exists>v. b f = Some v \<and> 2 < length (strip v))"
  by (cases "b f") (auto simp: field_counts_def truthy_def strip_Nil)

lemma counted_weights_sum:
  "fold (\<lambda>fw acc. if field_counts b (fst fw) then acc + snd fw else acc) xs (a::int) =
     a + sum_list (map (\<lambda>fw. if (\<exists>v. b (fst fw) = Some v \<and> 2 < length (strip v))
                                then snd fw else 0) xs)"
  by (induction xs arbitrary: a) (auto simp: field_counts_iff)

text \<open>
  Claim C3. The confidence score is the bucket of the weighted-presence percentage over the
  seven weighted fields, where a field counts iff it is present and its stripped text is
  longer than 2 characters; the thresholds 90, 70, 50 and 30 are inclusive, and every
  percentage below 30 (29.9, say) gives 1.
\<close>

theorem confidence_score_spec:
  "calculate_confidence b =
     confidence_bucket
       (of_int (sum_list (map (\<lambda>fw. if (\<exists>v. b (fst fw) = Some v \<and> 2 < length (strip v))
                                  then snd fw else 0) field_weights))
        / of_int (sum_list (map snd field_weights)) * 100)
   \<and> length field_weights = 7
   \<and> sum_list (map snd field_weights) = 14
   \<and> confidence_bucket 90 = 5 \<and> confidence_bucket 70 = 4
   \<and> confidence_bucket 50 = 3 \<and> confidence_bucket 30 = 2
   \<and> confidence_bucket (299 / 10) = 1
   \<and> (\<forall>p. confidence_bucket p =
          (if 90 \<le> p then 5 else if 70 \<le> p then 4 else if 50 \<le> p then 3
           else if 30 \<le> p then 2 else 1))
   \<and> (\<forall>p. p < 30 \<longrightarrow> confidence_bucket p = 1)"
proof -
  have "calculate_confidence b =
     confidence_bucket
       (of_int (sum_list (map (\<lambda>fw. if (\<exists>v. b (fst fw) = Some v \<and> 2 < length (strip v))
                                  then snd fw else 0) field_weights))
        / of_int (sum_list (map snd field_weights)) * 100)"
    unfolding calculate_confidence_def confidence_percentage_def Let_def
    by (simp add: counted_weights_sum)
  moreover have "length field_weights = 7" "sum_list (map snd field_weights) = 14"
    by (simp_all add: field_weights_def)
  moreover have "confidence_bucket 90 = 5" "confidence_bucket 70 = 4"
    "confidence_bucket 50 = 3" "confidence_bucket 30 = 2" "confidence_bucket (299 / 10) = 1"
    by (simp_all add: confidence_bucket_def)
  moreover have "\<forall>p. confidence_bucket p =
          (if 90 \<le> p then 5 else if 70 \<le> p then 4 else if 50 \<le> p then 3
           else if 30 \<le> p then 2 else 1)"
    by (simp add: confidence_bucket_def)
  moreover have "\<forall>p. p < 30 \<longrightarrow> confidence_bucket p = 1"
    by (simp add: confidence_bucket_def)
  ultimately show ?thesis by blast
qed

theorem confidence_score_spec_witness:
  "calculate_confidence
     (Map.empty(''flowering_time_raw'' \<mapsto> ''8 weeks'', ''thc_content_raw'' \<mapsto> ''18%'',
                ''effects_raw'' \<mapsto> '' ab '')) = 2
   \<and> confidence_bucket 29 = 1"
proof -
  let ?b = "Map.empty(''flowering_time_raw'' \<mapsto> ''8 weeks'', ''thc_content_raw'' \<mapsto> ''18%'',
                ''effects_raw'' \<mapsto> '' ab '')"
  have s1: "strip ''8 weeks'' = ''8 weeks''" by code_simp
  have s2: "strip ''18%'' = ''18%''" by code_simp
  have s3: "strip '' ab '' = ''ab''" by code_simp
  have b: "confidence_bucket (300 / 7) = 2" by (simp add: confidence_bucket_def)
  from confidence_score_spec [of ?b] have
    "calculate_confidence ?b =
     confidence_bucket
       (of_int (sum_list (map (\<lambda>fw. if (\<exists>v. ?b (fst fw) = Some v \<and> 2 < length (strip v))
                                  then snd fw else 0) field_weights))
        / of_int (sum_list (map snd field_weights)) * 100)"
    and p: "\<forall>p. p < 30 \<longrightarrow> confidence_bucket p = 1" by blast+
  then have "calculate_confidence ?b = 2"
    by (simp add: field_weights_def s1 s2 s3 b)
  moreover from p have "confidence_bucket 29 = 1" by simp
  ultimately show ?thesis by simp
qed

subsection \<open>Height, flowering time and percentages\<close>

lemma extract_height_range_unfold:
  "raw \<noteq> [] \<Longrightarrow>
   extract_height_range MedallionProcessor_init (Some raw) mx =
     (if contains ''short'' (lower raw) then Inr (Some 80)
      else if contains ''medium'' (lower raw) then Inr (Some 120)
      else if contains ''tall'' (lower raw) then Inr (Some 180)
      else (case re_search cm_pattern True raw of
              Some m \<Rightarrow> ebind (float_group (group m 1)) (\<lambda>v1.
                 if truthy (group m 2) \<and> mx
                 then ebind (float_group (group m 2)) (\<lambda>v. Inr (Some v))
                 else Inr (Some v1))
            | None \<Rightarrow>
               (case re_search feet_pattern True raw of
                  Some m \<Rightarrow> ebind (float_group (group m 1)) (\<lambda>v1.
                     if truthy (group m 2) \<and> mx
                     then ebind (float_group (group m 2)) (\<lambda>v. Inr (Some (v * (254 / 100 * 12))))
                     else Inr (Some (v1 * (254 / 100 * 12))))
                | None \<Rightarrow> Inr None)))"
  by (simp add: extract_height_range_def truthy_def MedallionProcessor_init_def Let_def
           cong: if_cong option.case_cong)

lemma extract_flowering_range_unfold:
  "raw \<noteq> [] \<Longrightarrow>
   extract_flowering_range MedallionProcessor_init (Some raw) mx =
     (case re_search week_pattern True raw of
        Some m \<Rightarrow> ebind (int_group (group m 1)) (\<lambda>n1.
           if truthy (group m 2) \<and> mx
           then ebind (int_group (group m 2)) (\<lambda>v. Inr (Some (v * 7)))
           else Inr (Some (n1 * 7)))
      | None \<Rightarrow>
         (case re_search day_pattern True raw of
            Some m \<Rightarrow> ebind (int_group (group m 1)) (\<lambda>n1.
               if truthy (group m 2) \<and> mx
               then ebind (int_group (group m 2)) (\<lambda>v. Inr (Some v))
               else Inr (Some n1))
          | None \<Rightarrow> Inr None))"
  by (simp add: extract_flowering_range_def truthy_def MedallionProcessor_init_def Let_def
           cong: if_cong option.case_cong)

lemma extract_percentage_range_unfold:
  "raw \<noteq> [] \<Longrightarrow>
   extract_percentage_range (Some raw) mx =
     (case re_search percent_pattern False raw of
        Some m \<Rightarrow> ebind (float_group (group m 1)) (\<lambda>v1.
           if truthy (group m 2) \<and> mx
           then ebind (float_group (group m 2)) (\<lambda>v. Inr (Some v))
           else Inr (Some v1))
      | None \<Rightarrow> Inr None)"
  by (simp add: extract_percentage_range_def truthy_def Let_def
           cong: if_cong option.case_cong)

lemma height_5_feet:
  "extract_height_range MedallionProcessor_init (Some ''5 feet'') False = Inr (Some (1524 / 10))"
  "extract_height_range MedallionProcessor_init (Some ''5 feet'') True = Inr (Some (1524 / 10))"
  by code_simp+

lemma height_80_120_cm:
  "extract_height_range MedallionProcessor_init (Some ''80-120cm'') False = Inr (Some 80)"
  "extract_height_range MedallionProcessor_init (Some ''80-120cm'') True = Inr (Some 120)"
  by code_simp+

lemma height_3_4_feet:
  "extract_height_range MedallionProcessor_init (Some ''3-4 feet'') True = Inr (Some (3048 / 25))"
  by code_simp

lemma search_3_4_feet:
  "re_search feet_pattern True ''3-4 feet'' = Some [(2, ''4''), (1, ''3'')]"
  "re_search cm_pattern True ''3-4 feet'' = None"
  by code_simp+

lemma search_8_9_weeks:
  "re_search week_pattern True ''8-9 weeks'' = Some [(2, ''9''), (1, ''8'')]"
  by code_simp

lemma search_18_percent:
  "re_search percent_pattern False ''18%'' = Some [(1, ''18'')]"
  by code_simp

text \<open>
  Claim C4, as stated, has the feet number multiplied by 2.54 * 12 / 100. The code multiplies
  by 30.48, so ``5 feet'' is not 5 * (2.54 * 12 / 100).
\<close>

theorem height_factor_counterexample:
  "extract_height_range MedallionProcessor_init (Some ''5 feet'') False
     \<noteq> Inr (Some (5 * (254 / 100 * 12 / 100)))"
  by (simp add: height_5_feet)

text \<open>
  Claim C4, amended. A text with a qualitative term (short, medium, tall, looked up in this
  order in the lower-cased text) gives the table value 80, 120 or 180; otherwise the number
  captured by the centimetre pattern is taken as it is; otherwise the number captured by the
  feet pattern is multiplied by 2.54 * 12 = 30.48; otherwise the result is null.
  ``5 feet'' gives 152.4 for both ends and ``80-120cm'' gives 80 and 120.
\<close>

theorem height_normalization:
  "raw \<noteq> [] \<Longrightarrow>
   (contains ''short'' (lower raw) \<longrightarrow>
      extract_height_range MedallionProcessor_init (Some raw) mx = Inr (Some 80))
   \<and> (\<not> contains ''short'' (lower raw) \<and> contains ''medium'' (lower raw) \<longrightarrow>
      extract_height_range MedallionProcessor_init (Some raw) mx = Inr (Some 120))
   \<and> (\<not> contains ''short'' (lower raw) \<and> \<not> contains ''medium'' (lower raw)
        \<and> contains ''tall'' (lower raw) \<longrightarrow>
      extract_height_range MedallionProcessor_init (Some raw) mx = Inr (Some 180))
   \<and> (\<not> contains ''short'' (lower raw) \<and> \<not> contains ''medium'' (lower raw)
        \<and> \<not> contains ''tall'' (lower raw) \<longrightarrow>
        (\<forall>m v1. re_search cm_pattern True raw = Some m \<and> float_group (group m 1) = Inr v1 \<longrightarrow>
           (\<not> (truthy (group m 2) \<and> mx) \<longrightarrow>
              extract_height_range MedallionProcessor_init (Some raw) mx = Inr (Some v1))
         \<and> (\<forall>v2. truthy (group m 2) \<and> mx \<and> float_group (group m 2) = Inr v2 \<longrightarrow>
              extract_height_range MedallionProcessor_init (Some raw) mx = Inr (Some v2)))
      \<and> (re_search cm_pattern True raw = None \<longrightarrow>
           (\<forall>m v1. re_search feet_pattern True raw = Some m \<and> float_group (group m 1) = Inr v1 \<longrightarrow>
              (\<not> (truthy (group m 2) \<and> mx) \<longrightarrow>
                 extract_height_range MedallionProcessor_init (Some raw) mx
                   = Inr (Some (v1 * (254 / 100 * 12))))
            \<and> (\<forall>v2. truthy (group m 2) \<and> mx \<and> float_group (group m 2) = Inr v2 \<longrightarrow>
                 extract_height_range MedallionProcessor_init (Some raw) mx
                   = Inr (Some (v2 * (254 / 100 * 12)))))
         \<and> (re_search feet_pattern True raw = None \<longrightarrow>
              extract_height_range MedallionProcessor_init (Some raw) mx = Inr None)))
   \<and> extract_height_range MedallionProcessor_init (Some ''5 feet'') False = Inr (Some (1524 / 10))
   \<and> extract_height_range MedallionProcessor_init (Some ''5 feet'') True = Inr (Some (1524 / 10))
   \<and> extract_height_range MedallionProcessor_init (Some ''80-120cm'') False = Inr (Some 80)
   \<and> extract_height_range MedallionProcessor_init (Some ''80-120cm'') True = Inr (Some 120)"
proof -
  assume raw: "raw \<noteq> []"
  show ?thesis
    unfolding extract_height_range_unfold [OF raw]
    by (simp add: height_5_feet height_80_120_cm ebind_def)
qed

theorem height_normalization_witness:
  "extract_height_range MedallionProcessor_init (Some ''3-4 feet'') True
     = Inr (Some (4 * (254 / 100 * 12)))
   \<and> extract_height_range MedallionProcessor_init (Some ''Tall plant'') False = Inr (Some 180)"
proof -
  have q: "\<not> contains ''short'' (lower ''3-4 feet'')" "\<not> contains ''medium'' (lower ''3-4 feet'')"
    "\<not> contains ''tall'' (lower ''3-4 feet'')"
    by code_simp+
  have g: "float_group (group [(2, ''4''), (1, ''3'')] 1) = Inr 3"
    "float_group (group [(2, ''4''), (1, ''3'')] 2) = Inr 4"
    "truthy (group [(2, ''4''), (1, ''3'')] 2)"
    by code_simp+
  have t: "\<not> contains ''short'' (lower ''Tall plant'')" "\<not> contains ''medium'' (lower ''Tall plant'')"
    "contains ''tall'' (lower ''Tall plant'')"
    by code_simp+
  have "extract_height_range MedallionProcessor_init (Some ''3-4 feet'') True
     = Inr (Some (4 * (254 / 100 * 12)))"
    using height_normalization [of "''3-4 feet''" True] q g search_3_4_feet by simp
  moreover have "extract_height_range MedallionProcessor_init (Some ''Tall plant'') False = Inr (Some 180)"
    using height_normalization [of "''Tall plant''" False] t by simp
  ultimately show ?thesis by simp
qed

text \<open>
  Claim C5, as stated, returns the second captured number itself for every normalizer but
  flowering. For ``3-4 feet'' the feet pattern captures the second number 4, and the
  maximum that is returned is 4 * 30.48, not 4.
\<close>

theorem second_number_counterexample:
  "map_option (\<lambda>m. group m 2) (re_search feet_pattern True ''3-4 feet'') = Some (Some ''4'')
   \<and> extract_height_range MedallionProcessor_init (Some ''3-4 feet'') True \<noteq> Inr (Some 4)"
  by (simp add: search_3_4_feet height_3_4_feet group_def)

text \<open>
  Claim C5, amended. Once a pattern has matched (for height: in a text without a qualitative
  term), the maximum request returns the second captured number when there is one, and every
  other request returns the first captured number, in both cases after the conversion of
  the pattern that matched: times 7 for weeks, times 30.48 for feet, unchanged for days,
  centimetres and percentages. Without a second captured number the minimum and the
  maximum are equal.
\<close>

theorem range_selection:
  "raw \<noteq> [] \<Longrightarrow>
   (\<forall>m v1. re_search percent_pattern False raw = Some m \<and> float_group (group m 1) = Inr v1 \<longrightarrow>
       (\<forall>v2. mx \<and> truthy (group m 2) \<and> float_group (group m 2) = Inr v2 \<longrightarrow>
           extract_percentage_range (Some raw) mx = Inr (Some v2))
     \<and> (\<not> (mx \<and> truthy (group m 2)) \<longrightarrow> extract_percentage_range (Some raw) mx = Inr (Some v1))
     \<and> (\<not> truthy (group m 2) \<longrightarrow>
           extract_percentage_range (Some raw) True = extract_percentage_range (Some raw) False))
   \<and> (\<forall>m n1. re_search week_pattern True raw = Some m \<and> int_group (group m 1) = Inr n1 \<longrightarrow>
       (\<forall>n2. mx \<and> truthy (group m 2) \<and> int_group (group m 2) = Inr n2 \<longrightarrow>
           extract_flowering_range MedallionProcessor_init (Some raw) mx = Inr (Some (n2 * 7)))
     \<and> (\<not> (mx \<and> truthy (group m 2)) \<longrightarrow>
           extract_flowering_range MedallionProcessor_init (Some raw) mx = Inr (Some (n1 * 7)))
     \<and> (\<not> truthy (group m 2) \<longrightarrow>
           extract_flowering_range MedallionProcessor_init (Some raw) True
             = extract_flowering_range MedallionProcessor_init (Some raw) False))
   \<and> (re_search week_pattern True raw = None \<longrightarrow>
       (\<forall>m n1. re_search day_pattern True raw = Some m \<and> int_group (group m 1) = Inr n1 \<longrightarrow>
          (\<forall>n2. mx \<and> truthy (group m 2) \<and> int_group (group m 2) = Inr n2 \<longrightarrow>
              extract_flowering_range MedallionProcessor_init (Some raw) mx = Inr (Some n2))
        \<and> (\<not> (mx \<and> truthy (group m 2)) \<longrightarrow>
              extract_flowering_range MedallionProcessor_init (Some raw) mx = Inr (Some n1))
        \<and> (\<not> truthy (group m 2) \<longrightarrow>
              extract_flowering_range MedallionProcessor_init (Some raw) True
                = extract_flowering_range MedallionProcessor_init (Some raw) False)))
   \<and> (\<not> contains ''short'' (lower raw) \<and> \<not> contains ''medium'' (lower raw)
        \<and> \<not> contains ''tall'' (lower raw) \<longrightarrow>
       (\<forall>m v1. re_search cm_pattern True raw = Some m \<and> float_group (group m 1) = Inr v1 \<longrightarrow>
          (\<forall>v2. mx \<and> truthy (group m 2) \<and> float_group (group m 2) = Inr v2 \<longrightarrow>
              extract_height_range MedallionProcessor_init (Some raw) mx = Inr (Some v2))
        \<and> (\<not> (mx \<and> truthy (group m 2)) \<longrightarrow>
              extract_height_range MedallionProcessor_init (Some raw) mx = Inr (Some v1))
        \<and> (\<not> truthy (group m 2) \<longrightarrow>
              extract_height_range MedallionProcessor_init (Some raw) True
                = extract_height_range MedallionProcessor_init (Some raw) False))
     \<and> (re_search cm_pattern True raw = None \<longrightarrow>
         (\<forall>m v1. re_search feet_pattern True raw = Some m \<and> float_group (group m 1) = Inr v1 \<longrightarrow>
            (\<forall>v2. mx \<and> truthy (group m 2) \<and> float_group (group m 2) = Inr v2 \<longrightarrow>
                extract_height_range MedallionProcessor_init (Some raw) mx
                  = Inr (Some (v2 * (3048 / 100))))
          \<and> (\<not> (mx \<and> truthy (group m 2)) \<longrightarrow>
                extract_height_range MedallionProcessor_init (Some raw) mx
                  = Inr (Some (v1 * (3048 / 100))))
          \<and> (\<not> truthy (group m 2) \<longrightarrow>
                extract_height_range MedallionProcessor_init (Some raw) True
                  = extract_height_range MedallionProcessor_init (Some raw) False))))"
proof -
  assume raw: "raw \<noteq> []"
  have p: "\<forall>m v1. re_search percent_pattern False raw = Some m \<and> float_group (group m 1) = Inr v1 \<longrightarrow>
       (\<forall>v2. mx \<and> truthy (group m 2) \<and> float_group (group m 2) = Inr v2 \<longrightarrow>
           extract_percentage_range (Some raw) mx = Inr (Some v2))
     \<and> (\<not> (mx \<and> truthy (group m 2)) \<longrightarrow> extract_percentage_range (Some raw) mx = Inr (Some v1))
     \<and> (\<not> truthy (group m 2) \<longrightarrow>
           extract_percentage_range (Some raw) True = extract_percentage_range (Some raw) False)"
    by (simp add: extract_percentage_range_unfold [OF raw] ebind_def)
  have w: "\<forall>m n1. re_search week_pattern True raw = Some m \<and> int_group (group m 1) = Inr n1 \<longrightarrow>
       (\<forall>n2. mx \<and> truthy (group m 2) \<and> int_group (group m 2) = Inr n2 \<longrightarrow>
           extract_flowering_range MedallionProcessor_init (Some raw) mx = Inr (Some (n2 * 7)))
     \<and> (\<not> (mx \<and> truthy (group m 2)) \<longrightarrow>
           extract_flowering_range MedallionProcessor_init (Some raw) mx = Inr (Some (n1 * 7)))
     \<and> (\<not> truthy (group m 2) \<longrightarrow>
           extract_flowering_range MedallionProcessor_init (Some raw) True
             = extract_flowering_range MedallionProcessor_init (Some raw) False)"
    by (simp add: extract_flowering_range_unfold [OF raw] ebind_def)
  have d: "re_search week_pattern True raw = None \<longrightarrow>
       (\<forall>m n1. re_search day_pattern True raw = Some m \<and> int_group (group m 1) = Inr n1 \<longrightarrow>
          (\<forall>n2. mx \<and> truthy (group m 2) \<and> int_group (group m 2) = Inr n2 \<longrightarrow>
              extract_flowering_range MedallionProcessor_init (Some raw) mx = Inr (Some n2))
        \<and> (\<not> (mx \<and> truthy (group m 2)) \<longrightarrow>
              extract_flowering_range MedallionProcessor_init (Some raw) mx = Inr (Some n1))
        \<and> (\<not> truthy (group m 2) \<longrightarrow>
              extract_flowering_range MedallionProcessor_init (Some raw) True
                = extract_flowering_range MedallionProcessor_init (Some raw) False))"
    by (simp add: extract_flowering_range_unfold [OF raw] ebind_def)
  have h: "\<not> contains ''short'' (lower raw) \<and> \<not> contains ''medium'' (lower raw)
        \<and> \<not> contains ''tall'' (lower raw) \<longrightarrow>
       (\<forall>m v1. re_search cm_pattern True raw = Some m \<and> float_group (group m 1) = Inr v1 \<longrightarrow>
          (\<forall>v2. mx \<and> truthy (group m 2) \<and> float_group (group m 2) = Inr v2 \<longrightarrow>
              extract_height_range MedallionProcessor_init (Some raw) mx = Inr (Some v2))
        \<and> (\<not> (mx \<and> truthy (group m 2)) \<longrightarrow>
              extract_height_range MedallionProcessor_init (Some raw) mx = Inr (Some v1))
        \<and> (\<not> truthy (group m 2) \<longrightarrow>
              extract_height_range MedallionProcessor_init (Some raw) True
                = extract_height_range MedallionProcessor_init (Some raw) False))
     \<and> (re_search cm_pattern True raw = None \<longrightarrow>
         (\<forall>m v1. re_search feet_pattern True raw = Some m \<and> float_group (group m 1) = Inr v1 \<longrightarrow>
            (\<forall>v2. mx \<and> truthy (group m 2) \<and> float_group (group m 2) = Inr v2 \<longrightarrow>
                extract_height_range MedallionProcessor_init (Some raw) mx
                  = Inr (Some (v2 * (3048 / 100))))
          \<and> (\<not> (mx \<and> truthy (group m 2)) \<longrightarrow>
                extract_height_range MedallionProcessor_init (Some raw) mx
                  = Inr (Some (v1 * (3048 / 100))))
          \<and> (\<not> truthy (group m 2) \<longrightarrow>
                extract_height_range MedallionProcessor_init (Some raw) True
                  = extract_height_range MedallionProcessor_init (Some raw) False)))"
    by (simp add: extract_height_range_unfold [OF raw] ebind_def)
  from p w d h show ?thesis by blast
qed

theorem range_selection_witness:
  "extract_flowering_range MedallionProcessor_init (Some ''8-9 weeks'') True = Inr (Some 63)
   \<and> extract_flowering_range MedallionProcessor_init (Some ''8-9 weeks'') False = Inr (Some 56)
   \<and> extract_percentage_range (Some ''18%'') True = Inr (Some 18)
   \<and> extract_percentage_range (Some ''18%'') False = Inr (Some 18)
   \<and> extract_height_range MedallionProcessor_init (Some ''3-4 feet'') True = Inr (Some (3048 / 25))"
proof -
  have g: "int_group (group [(2, ''9''), (1, ''8'')] 1) = Inr 8"
    "int_group (group [(2, ''9''), (1, ''8'')] 2) = Inr 9"
    "truthy (group [(2, ''9''), (1, ''8'')] 2)"
    by code_simp+
  have f: "float_group (group [(1, ''18'')] 1) = Inr 18" "\<not> truthy (group [(1, ''18'')] 2)"
    by code_simp+
  have q: "\<not> contains ''short'' (lower ''3-4 feet'')" "\<not> contains ''medium'' (lower ''3-4 feet'')"
    "\<not> contains ''tall'' (lower ''3-4 feet'')"
    by code_simp+
  have k: "float_group (group [(2, ''4''), (1, ''3'')] 1) = Inr 3"
    "float_group (group [(2, ''4''), (1, ''3'')] 2) = Inr 4"
    "truthy (group [(2, ''4''), (1, ''3'')] 2)"
    by code_simp+
  have "extract_flowering_range MedallionProcessor_init (Some ''8-9 weeks'') True = Inr (Some 63)"
    using range_selection [of "''8-9 weeks''" True] search_8_9_weeks g by simp
  moreover have "extract_flowering_range MedallionProcessor_init (Some ''8-9 weeks'') False = Inr (Some 56)"
    using range_selection [of "''8-9 weeks''" False] search_8_9_weeks g by simp
  moreover have "extract_percentage_range (Some ''18%'') True = Inr (Some 18)"
    using range_selection [of "''18%''" True] search_18_percent f by simp
  moreover have "extract_percentage_range (Some ''18%'') False = Inr (Some 18)"
    using range_selection [of "''18%''" False] search_18_percent f by simp
  moreover have "extract_height_range MedallionProcessor_init (Some ''3-4 feet'') True = Inr (Some (3048 / 25))"
    using range_selection [of "''3-4 feet''" True] search_3_4_feet q k by simp
  ultimately show ?thesis by simp
qed


subsection \<open>Shape of the matches\<close>

lemma star_greedy_rel:
  assumes step: "\<And>a b. b \<in> set (f a) \<Longrightarrow> R a b"
    and refl: "\<And>a. R a a"
    and trans: "\<And>a b c. R a b \<Longrightarrow> R b c \<Longrightarrow> R a c"
  shows "b \<in> set (star_greedy f n a) \<Longrightarrow> R a b"
proof (induction n arbitrary: a)
  case 0
  then show ?case using refl by simp
next
  case (Suc n)
  from Suc.prems consider "b = a"
    | m where "m \<in> set (f a)" "b \<in> set (star_greedy f n m)"
    by (auto split: if_splits)
  then show ?case
  proof cases
    case 1
    then show ?thesis using refl by simp
  next
    case 2
    then show ?thesis using step Suc.IH trans by blast
  qed
qed

lemma star_lazy_rel:
  assumes step: "\<And>a b. b \<in> set (f a) \<Longrightarrow> R a b"
    and refl: "\<And>a. R a a"
    and trans: "\<And>a b c. R a b \<Longrightarrow> R b c \<Longrightarrow> R a c"
  shows "b \<in> set (star_lazy f n a) \<Longrightarrow> R a b"
proof (induction n arbitrary: a)
  case 0
  then show ?case using refl by simp
next
  case (Suc n)
  from Suc.prems consider "b = a"
    | m where "m \<in> set (f a)" "b \<in> set (star_lazy f n m)"
    by (auto split: if_splits)
  then show ?case
  proof cases
    case 1
    then show ?thesis using refl by simp
  next
    case 2
    then show ?thesis using step Suc.IH trans by blast
  qed
qed

lemma one_char_frame: "b \<in> set (one_char p a) \<Longrightarrow> snd b = snd a"
  by (auto simp: one_char_def split: list.splits if_splits)

lemma ms_frame:
  "b \<in> set (ms r ic a) \<Longrightarrow> n \<notin> group_ids r \<Longrightarrow> group (snd b) n = group (snd a) n"
proof (induction r arbitrary: a b)
  case (Cat r1 r2)
  from Cat.prems obtain m where m: "m \<in> set (ms r1 ic a)" "b \<in> set (ms r2 ic m)"
    by auto
  from Cat.prems have "n \<notin> group_ids r1" "n \<notin> group_ids r2"
    by simp_all
  with m Cat.IH(1) [of m a] Cat.IH(2) [of b m] show ?case
    by simp
next
  case (Alt r1 r2)
  from Alt.prems have "n \<notin> group_ids r1" "n \<notin> group_ids r2"
    by simp_all
  moreover from Alt.prems have "b \<in> set (ms r1 ic a) \<or> b \<in> set (ms r2 ic a)"
    by simp
  ultimately show ?case
    using Alt.IH(1) [of b a] Alt.IH(2) [of b a] by blast
next
  case (Star r)
  have "group (snd a) n = group (snd b) n"
    by (rule star_greedy_rel [where R = "\<lambda>x y. group (snd x) n = group (snd y) n"
          and f = "ms r ic" and n = "length (fst a)"])
       (use Star in \<open>auto\<close>)
  then show ?case by simp
next
  case (LazyStar r)
  have "group (snd a) n = group (snd b) n"
    by (rule star_lazy_rel [where R = "\<lambda>x y. group (snd x) n = group (snd y) n"
          and f = "ms r ic" and n = "length (fst a)"])
       (use LazyStar in \<open>auto\<close>)
  then show ?case by simp
next
  case (Group k r)
  from Group.prems obtain m where m: "m \<in> set (ms r ic a)" "b = set_group k (fst a) m"
    by auto
  from Group.prems have "n \<noteq> k" "n \<notin> group_ids r"
    by simp_all
  with m Group.IH [of m a] show ?case
    by (simp add: set_group_def group_def)
qed (auto simp: one_char_frame at_eol_def split: list.splits if_splits)

lemma ms_Cat_E:
  "b \<in> set (ms (Cat x y) ic a) \<Longrightarrow> \<exists>m \<in> set (ms x ic a). b \<in> set (ms y ic m)"
  by auto

lemma ms_Opt_E:
  "b \<in> set (ms (Opt x) ic a) \<Longrightarrow> b \<in> set (ms x ic a) \<or> b = a"
  by (auto simp: Opt_def)

lemma ms_Digit_E:
  "b \<in> set (ms Digit ic a) \<Longrightarrow> \<exists>x. fst a = x # fst b \<and> is_digit x"
  by (cases a) (auto simp: one_char_def split: list.splits if_splits)

lemma ms_Star_Digit:
  assumes b: "b \<in> set (ms (Star Digit) ic a)"
  shows "\<exists>p. fst a = p @ fst b \<and> list_all is_digit p"
proof (rule star_greedy_rel [where R = "\<lambda>x y. \<exists>p. fst x = p @ fst y \<and> list_all is_digit p"
          and f = "ms Digit ic" and n = "length (fst a)"])
  fix x y
  assume "y \<in> set (ms Digit ic x)"
  then obtain c where "fst x = c # fst y" "is_digit c"
    using ms_Digit_E by blast
  then have "fst x = [c] @ fst y \<and> list_all is_digit [c]" by simp
  then show "\<exists>p. fst x = p @ fst y \<and> list_all is_digit p" by blast
next
  fix x :: mstate
  have "fst x = [] @ fst x \<and> list_all is_digit []" by simp
  then show "\<exists>p. fst x = p @ fst x \<and> list_all is_digit p" by blast
next
  fix x y z :: mstate
  assume "\<exists>p. fst x = p @ fst y \<and> list_all is_digit p"
    and "\<exists>p. fst y = p @ fst z \<and> list_all is_digit p"
  then obtain p q where "fst x = p @ fst y" "list_all is_digit p"
    "fst y = q @ fst z" "list_all is_digit q"
    by blast
  then have "fst x = (p @ q) @ fst z \<and> list_all is_digit (p @ q)" by simp
  then show "\<exists>p. fst x = p @ fst z \<and> list_all is_digit p" by blast
next
  from b show "b \<in> set (star_greedy (ms Digit ic) (length (fst a)) a)" by simp
qed

lemma ms_digits:
  assumes "b \<in> set (ms (Plus Digit) ic a)"
  shows "\<exists>p. fst a = p @ fst b \<and> is_digits p"
proof -
  from assms obtain m where m: "m \<in> set (ms Digit ic a)" "b \<in> set (ms (Star Digit) ic m)"
    unfolding Plus_def using ms_Cat_E by blast
  from m(1) obtain c where c: "fst a = c # fst m" "is_digit c"
    using ms_Digit_E by blast
  from m(2) obtain p where p: "fst m = p @ fst b" "list_all is_digit p"
    using ms_Star_Digit by blast
  from c p have "fst a = (c # p) @ fst b \<and> is_digits (c # p)"
    by (simp add: is_digits_def)
  then show ?thesis by blast
qed

lemma lower_char_dot: "lower_char x = lower_char CHR ''.'' \<Longrightarrow> x = CHR ''.''"
  by (cases x) (auto simp: lower_char_bits split: if_splits)

lemma ms_Lit_dot_E:
  "b \<in> set (ms (Lit CHR ''.'') ic a) \<Longrightarrow> fst a = CHR ''.'' # fst b"
  by (cases a)
     (auto simp: one_char_def char_eq_def lower_char_dot split: list.splits if_splits)

lemma ms_decimal:
  assumes "b \<in> set (ms decimal ic a)"
  shows "\<exists>p. fst a = p @ fst b \<and> is_decimal p"
proof -
  from assms obtain m where m: "m \<in> set (ms (Plus Digit) ic a)"
    "b \<in> set (ms (Opt (Cat (Lit CHR ''.'') (Plus Digit))) ic m)"
    unfolding decimal_def using ms_Cat_E by blast
  from m(1) obtain d1 where d1: "fst a = d1 @ fst m" "is_digits d1"
    using ms_digits by blast
  from m(2) consider "b = m" | "b \<in> set (ms (Cat (Lit CHR ''.'') (Plus Digit)) ic m)"
    using ms_Opt_E by blast
  then show ?thesis
  proof cases
    case 1
    with d1 have "fst a = d1 @ fst b \<and> is_decimal d1"
      by (auto simp: is_decimal_def)
    then show ?thesis by blast
  next
    case 2
    then obtain k where k: "k \<in> set (ms (Lit CHR ''.'') ic m)" "b \<in> set (ms (Plus Digit) ic k)"
      using ms_Cat_E by blast
    from k(1) have dot: "fst m = CHR ''.'' # fst k"
      by (rule ms_Lit_dot_E)
    from k(2) obtain d2 where d2: "fst k = d2 @ fst b" "is_digits d2"
      using ms_digits by blast
    from d1 dot d2 have "fst a = (d1 @ CHR ''.'' # d2) @ fst b" by simp
    moreover from d1 d2 have "is_decimal (d1 @ CHR ''.'' # d2)"
      by (auto simp: is_decimal_def)
    ultimately show ?thesis by blast
  qed
qed

lemma not_digit_dot: "\<not> is_digit CHR ''.''"
  by code_simp

lemma py_int_digits: "is_digits p \<Longrightarrow> \<exists>v. py_int p = Inr v"
  by (simp add: py_int_def is_digits_def)

lemma py_float_decimal:
  assumes "is_decimal p"
  shows "\<exists>v. py_float p = Inr v"
proof -
  from assms obtain d1 d2 where d1: "d1 \<noteq> []" "list_all is_digit d1"
    and p: "p = d1 \<or> (d2 \<noteq> [] \<and> list_all is_digit d2 \<and> p = d1 @ CHR ''.'' # d2)"
    unfolding is_decimal_def is_digits_def by blast
  from p show ?thesis
  proof
    assume "p = d1"
    with d1 have "takeWhile is_digit p = d1" "dropWhile is_digit p = []"
      by (simp_all add: list_all_iff)
    with d1 show ?thesis by (simp add: py_float_def)
  next
    assume q: "d2 \<noteq> [] \<and> list_all is_digit d2 \<and> p = d1 @ CHR ''.'' # d2"
    with d1 have "takeWhile is_digit p = d1" "dropWhile is_digit p = CHR ''.'' # d2"
      by (simp_all add: list_all_iff not_digit_dot takeWhile_tail dropWhile_append3)
    with d1 q show ?thesis by (simp add: py_float_def)
  qed
qed

lemma ms_Group_E:
  "b \<in> set (ms (Group n r) ic a) \<Longrightarrow> \<exists>m \<in> set (ms r ic a). b = set_group n (fst a) m"
  by auto

lemma group_set_group:
  "group (snd (set_group n (p @ fst m) m)) n = Some p"
  "k \<noteq> n \<Longrightarrow> group (snd (set_group n s m)) k = group (snd m) k"
  by (simp_all add: set_group_def group_def)

lemma group_ids_seq:
  "(\<And>r. r \<in> set rs \<Longrightarrow> group_ids r = {}) \<Longrightarrow> group_ids (seq rs) = {}"
  by (induction rs rule: seq.induct) simp_all

lemma group_ids_str: "group_ids (str s) = {}"
  unfolding str_def by (rule group_ids_seq) auto

lemma group_ids_basic:
  "group_ids (Opt r) = group_ids r"
  "group_ids (Plus r) = group_ids r"
  "group_ids decimal = {}"
  by (simp_all add: Opt_def Plus_def decimal_def)

text \<open>A pattern that starts with its first group.\<close>

lemma first_group_shape:
  assumes X: "\<And>a b. b \<in> set (ms X ic a) \<Longrightarrow> \<exists>p. fst a = p @ fst b \<and> Q p"
    and rest: "1 \<notin> group_ids R"
    and b: "b \<in> set (ms (Cat (Group 1 X) R) ic a)"
  shows "\<exists>p. group (snd b) 1 = Some p \<and> Q p"
proof -
  from b obtain m1 where m1: "m1 \<in> set (ms (Group 1 X) ic a)" "b \<in> set (ms R ic m1)"
    using ms_Cat_E by blast
  from m1(1) obtain m0 where m0: "m0 \<in> set (ms X ic a)" "m1 = set_group 1 (fst a) m0"
    using ms_Group_E by blast
  from X [OF m0(1)] obtain p where p: "fst a = p @ fst m0" "Q p"
    by blast
  from p(1) m0(2) have "group (snd m1) 1 = Some p"
    by (simp add: group_set_group)
  with ms_frame [OF m1(2) rest] p(2) show ?thesis
    by simp
qed

text \<open>The range patterns: a first group, an optional second group of the same shape, and
  nothing else that captures.\<close>

lemma range_shape:
  assumes X: "\<And>a b. b \<in> set (ms X ic a) \<Longrightarrow> \<exists>p. fst a = p @ fst b \<and> Q p"
    and gX: "group_ids X = {}" and gT: "group_ids T = {}"
    and b: "b \<in> set (ms (Cat (Group 1 X) (Cat (Star Space) (Cat (Opt (Lit CHR ''-''))
              (Cat (Star Space) (Cat (Opt (Group 2 X)) (Cat (Star Space) T)))))) ic (s, []))"
  shows "(\<exists>p. group (snd b) 1 = Some p \<and> Q p)
       \<and> (group (snd b) 2 = None \<or> (\<exists>p. group (snd b) 2 = Some p \<and> Q p))"
proof -
  let ?R = "Cat (Star Space) (Cat (Opt (Lit CHR ''-''))
              (Cat (Star Space) (Cat (Opt (Group 2 X)) (Cat (Star Space) T))))"
  have "1 \<notin> group_ids ?R"
    by (simp add: gX gT group_ids_basic)
  from first_group_shape [where Q = Q, OF X this b]
  have one: "\<exists>p. group (snd b) 1 = Some p \<and> Q p" .
  from b obtain m1 where m1: "m1 \<in> set (ms (Group 1 X) ic (s, []))" "b \<in> set (ms ?R ic m1)"
    using ms_Cat_E by blast
  from m1(1) obtain m0 where m0: "m0 \<in> set (ms X ic (s, []))" "m1 = set_group 1 s m0"
    using ms_Group_E by fastforce
  have "group (snd m0) 2 = group (snd (s, [])) 2"
    by (rule ms_frame [OF m0(1)]) (simp add: gX)
  then have g1: "group (snd m1) 2 = None"
    by (simp add: m0(2) group_set_group) (simp add: group_def)
  from m1(2) obtain m2 where m2: "m2 \<in> set (ms (Star Space) ic m1)"
    "b \<in> set (ms (Cat (Opt (Lit CHR ''-''))
              (Cat (Star Space) (Cat (Opt (Group 2 X)) (Cat (Star Space) T)))) ic m2)"
    using ms_Cat_E by blast
  from m2(2) obtain m3 where m3: "m3 \<in> set (ms (Opt (Lit CHR ''-'')) ic m2)"
    "b \<in> set (ms (Cat (Star Space) (Cat (Opt (Group 2 X)) (Cat (Star Space) T))) ic m3)"
    using ms_Cat_E by blast
  from m3(2) obtain m4 where m4: "m4 \<in> set (ms (Star Space) ic m3)"
    "b \<in> set (ms (Cat (Opt (Group 2 X)) (Cat (Star Space) T)) ic m4)"
    using ms_Cat_E by blast
  from m4(2) obtain m5 where m5: "m5 \<in> set (ms (Opt (Group 2 X)) ic m4)"
    "b \<in> set (ms (Cat (Star Space) T) ic m5)"
    using ms_Cat_E by blast
  have "group (snd m2) 2 = group (snd m1) 2"
    by (rule ms_frame [OF m2(1)]) simp
  moreover have "group (snd m3) 2 = group (snd m2) 2"
    by (rule ms_frame [OF m3(1)]) (simp add: group_ids_basic)
  moreover have "group (snd m4) 2 = group (snd m3) 2"
    by (rule ms_frame [OF m4(1)]) simp
  ultimately have g4: "group (snd m4) 2 = None"
    using g1 by simp
  have g5: "group (snd m5) 2 = None \<or> (\<exists>p. group (snd m5) 2 = Some p \<and> Q p)"
  proof -
    from m5(1) consider "m5 = m4" | "m5 \<in> set (ms (Group 2 X) ic m4)"
      using ms_Opt_E by blast
    then show ?thesis
    proof cases
      case 1
      with g4 show ?thesis by simp
    next
      case 2
      then obtain k where k: "k \<in> set (ms X ic m4)" "m5 = set_group 2 (fst m4) k"
        using ms_Group_E by blast
      from X [OF k(1)] obtain p where p: "fst m4 = p @ fst k" "Q p"
        by blast
      from p(1) k(2) have "group (snd m5) 2 = Some p"
        by (simp add: group_set_group)
      with p(2) show ?thesis by blast
    qed
  qed
  have "group (snd b) 2 = group (snd m5) 2"
    by (rule ms_frame [OF m5(2)]) (simp add: gT)
  with g5 one show ?thesis
    by simp
qed

lemma search_from_Some:
  "search_from r ic s = Some (s0, s1, m) \<Longrightarrow> \<exists>b \<in> set (ms r ic (s0, [])). snd b = m"
proof (induction s)
  case Nil
  then show ?case
    by (cases "ms r ic ([], [])") auto
next
  case (Cons x xs)
  then show ?case
    by (cases "ms r ic (x # xs, [])") auto
qed

lemma re_search_Some:
  assumes "re_search r ic s = Some m"
  shows "\<exists>s0 b. b \<in> set (ms r ic (s0, [])) \<and> snd b = m"
proof -
  from assms obtain x where x: "search_from r ic s = Some x" "snd (snd x) = m"
    by (auto simp: re_search_def)
  then have "search_from r ic s = Some (fst x, fst (snd x), m)"
    by (cases x) auto
  from search_from_Some [OF this] show ?thesis
    by blast
qed

lemma seq_Cons: "rs \<noteq> [] \<Longrightarrow> seq (r # rs) = Cat r (seq rs)"
  by (cases rs) simp_all

lemma range_pattern_groups:
  assumes X: "\<And>a b. b \<in> set (ms X ic a) \<Longrightarrow> \<exists>p. fst a = p @ fst b \<and> Q p"
    and gX: "group_ids X = {}" and gT: "group_ids (seq (t # ts)) = {}"
    and m: "re_search (seq (Group 1 X # Star Space # Opt (Lit CHR ''-'') # Star Space
                             # Opt (Group 2 X) # Star Space # t # ts)) ic s = Some m"
  shows "(\<exists>p. group m 1 = Some p \<and> Q p)
       \<and> (group m 2 = None \<or> (\<exists>p. group m 2 = Some p \<and> Q p))"
proof -
  from re_search_Some [OF m] obtain s0 b where
    b: "b \<in> set (ms (seq (Group 1 X # Star Space # Opt (Lit CHR ''-'') # Star Space
                             # Opt (Group 2 X) # Star Space # t # ts)) ic (s0, []))"
    and mb: "snd b = m"
    by blast
  from b have "b \<in> set (ms (Cat (Group 1 X) (Cat (Star Space) (Cat (Opt (Lit CHR ''-''))
              (Cat (Star Space) (Cat (Opt (Group 2 X)) (Cat (Star Space) (seq (t # ts)))))))) ic (s0, []))"
    by (simp only: seq_Cons list.distinct not_False_eq_True)
  from range_shape [where Q = Q, OF X gX gT this] mb show ?thesis
    by simp
qed

lemma cm_groups:
  assumes m: "re_search cm_pattern ic s = Some m"
  shows "(\<exists>p. group m 1 = Some p \<and> is_decimal p)
       \<and> (group m 2 = None \<or> (\<exists>p. group m 2 = Some p \<and> is_decimal p))"
proof -
  have t: "group_ids (seq [str ''cm'']) = {}"
    by (simp add: group_ids_str group_ids_basic)
  have x: "group_ids (decimal) = {}"
    by (simp add: group_ids_basic)
  show ?thesis
    by (rule range_pattern_groups [where Q = is_decimal, OF ms_decimal x t m [unfolded cm_pattern_def]])
qed

lemma feet_groups:
  assumes m: "re_search feet_pattern ic s = Some m"
  shows "(\<exists>p. group m 1 = Some p \<and> is_decimal p)
       \<and> (group m 2 = None \<or> (\<exists>p. group m 2 = Some p \<and> is_decimal p))"
proof -
  have t: "group_ids (seq [Alt (str ''feet'') (str ''ft'')]) = {}"
    by (simp add: group_ids_str group_ids_basic)
  have x: "group_ids (decimal) = {}"
    by (simp add: group_ids_basic)
  show ?thesis
    by (rule range_pattern_groups [where Q = is_decimal, OF ms_decimal x t m [unfolded feet_pattern_def]])
qed

lemma percent_groups:
  assumes m: "re_search percent_pattern ic s = Some m"
  shows "(\<exists>p. group m 1 = Some p \<and> is_decimal p)
       \<and> (group m 2 = None \<or> (\<exists>p. group m 2 = Some p \<and> is_decimal p))"
proof -
  have t: "group_ids (seq [Lit CHR ''%'']) = {}"
    by (simp add: group_ids_str group_ids_basic)
  have x: "group_ids (decimal) = {}"
    by (simp add: group_ids_basic)
  show ?thesis
    by (rule range_pattern_groups [where Q = is_decimal, OF ms_decimal x t m [unfolded percent_pattern_def]])
qed

lemma week_groups:
  assumes m: "re_search week_pattern ic s = Some m"
  shows "(\<exists>p. group m 1 = Some p \<and> is_digits p)
       \<and> (group m 2 = None \<or> (\<exists>p. group m 2 = Some p \<and> is_digits p))"
proof -
  have t: "group_ids (seq [Alt (Cat (str ''week'') (Opt (Lit CHR ''s''))) (Cat (str ''wk'') (Opt (Lit CHR ''s'')))]) = {}"
    by (simp add: group_ids_str group_ids_basic)
  have x: "group_ids (Plus Digit) = {}"
    by (simp add: group_ids_basic)
  show ?thesis
    by (rule range_pattern_groups [where Q = is_digits, OF ms_digits x t m [unfolded week_pattern_def]])
qed

lemma day_groups:
  assumes m: "re_search day_pattern ic s = Some m"
  shows "(\<exists>p. group m 1 = Some p \<and> is_digits p)
       \<and> (group m 2 = None \<or> (\<exists>p. group m 2 = Some p \<and> is_digits p))"
proof -
  have t: "group_ids (seq [str ''day'', Opt (Lit CHR ''s'')]) = {}"
    by (simp add: group_ids_str group_ids_basic)
  have x: "group_ids (Plus Digit) = {}"
    by (simp add: group_ids_basic)
  show ?thesis
    by (rule range_pattern_groups [where Q = is_digits, OF ms_digits x t m [unfolded day_pattern_def]])
qed

lemma genetics_groups:
  assumes "re_search (genetics_pattern ty) ic s = Some m"
  shows "\<exists>p. group m 1 = Some p \<and> is_digits p"
proof -
  from re_search_Some [OF assms] obtain s0 b where
    b: "b \<in> set (ms (genetics_pattern ty) ic (s0, []))" and mb: "snd b = m"
    by blast
  let ?R = "seq [Star Space, Lit CHR ''%'', Star Space, str ty]"
  from b have "b \<in> set (ms (Cat (Group 1 (Plus Digit)) ?R) ic (s0, []))"
    by (simp add: genetics_pattern_def)
  moreover have "1 \<notin> group_ids ?R"
    by (simp add: group_ids_str)
  ultimately have "\<exists>p. group (snd b) 1 = Some p \<and> is_digits p"
    using first_group_shape [where Q = is_digits and X = "Plus Digit"] ms_digits
    by blast
  with mb show ?thesis by simp
qed

text \<open>A captured number always converts.\<close>

lemma float_group_decimal:
  "\<exists>p. g = Some p \<and> is_decimal p \<Longrightarrow> \<exists>v. float_group g = Inr v"
  by (auto simp: float_group_def dest: py_float_decimal)

lemma int_group_digits:
  "\<exists>p. g = Some p \<and> is_digits p \<Longrightarrow> \<exists>v. int_group g = Inr v"
  by (auto simp: int_group_def dest: py_int_digits)

lemma select_returns:
  assumes "\<exists>v. x = Inr v" and "c \<Longrightarrow> \<exists>v. y = Inr v"
  shows "\<exists>r. ebind x (\<lambda>a. if c then ebind y (\<lambda>v. Inr (F v)) else Inr (G a)) = Inr r"
  using assms by (auto simp: ebind_def)

lemma float_select_returns:
  assumes "(\<exists>p. group m 1 = Some p \<and> is_decimal p)
       \<and> (group m 2 = None \<or> (\<exists>p. group m 2 = Some p \<and> is_decimal p))"
  shows "\<exists>r. ebind (float_group (group m 1))
               (\<lambda>a. if truthy (group m 2) \<and> mx
                     then ebind (float_group (group m 2)) (\<lambda>v. Inr (F v)) else Inr (G a)) = Inr r"
proof (rule select_returns)
  from assms show "\<exists>v. float_group (group m 1) = Inr v"
    by (intro float_group_decimal) blast
next
  assume "truthy (group m 2) \<and> mx"
  with assms have "\<exists>p. group m 2 = Some p \<and> is_decimal p"
    by (auto simp: truthy_def)
  then show "\<exists>v. float_group (group m 2) = Inr v"
    by (rule float_group_decimal)
qed

lemma int_select_returns:
  assumes "(\<exists>p. group m 1 = Some p \<and> is_digits p)
       \<and> (group m 2 = None \<or> (\<exists>p. group m 2 = Some p \<and> is_digits p))"
  shows "\<exists>r. ebind (int_group (group m 1))
               (\<lambda>a. if truthy (group m 2) \<and> mx
                     then ebind (int_group (group m 2)) (\<lambda>v. Inr (F v)) else Inr (G a)) = Inr r"
proof (rule select_returns)
  from assms show "\<exists>v. int_group (group m 1) = Inr v"
    by (intro int_group_digits) blast
next
  assume "truthy (group m 2) \<and> mx"
  with assms have "\<exists>p. group m 2 = Some p \<and> is_digits p"
    by (auto simp: truthy_def)
  then show "\<exists>v. int_group (group m 2) = Inr v"
    by (rule int_group_digits)
qed

lemma extract_percentage_range_returns:
  "\<exists>v. extract_percentage_range raw mx = Inr v"
proof (cases "truthy raw")
  case False
  then show ?thesis by (simp add: extract_percentage_range_def)
next
  case True
  show ?thesis
  proof (cases "re_search percent_pattern False (the raw)")
    case None
    with True show ?thesis by (simp add: extract_percentage_range_def)
  next
    case (Some m)
    from float_select_returns [OF percent_groups [OF Some], of mx Some Some]
    show ?thesis using True Some
      by (simp add: extract_percentage_range_def Let_def)
  qed
qed

lemma extract_height_range_returns:
  "\<exists>v. extract_height_range self raw mx = Inr v"
proof (cases "truthy raw")
  case False
  then show ?thesis by (simp add: extract_height_range_def)
next
  case True
  show ?thesis
  proof (cases "re_search cm_pattern True (the raw)")
    case (Some m)
    from float_select_returns [OF cm_groups [OF Some], of mx Some Some]
    show ?thesis using True Some
      by (simp add: extract_height_range_def Let_def)
  next
    case None
    show ?thesis
    proof (cases "re_search feet_pattern True (the raw)")
      case (Some m)
      from float_select_returns [OF feet_groups [OF Some], of mx
             "\<lambda>v. Some (v * height_feet_to_cm self)" "\<lambda>v. Some (v * height_feet_to_cm self)"]
      show ?thesis using True None Some
        by (simp add: extract_height_range_def Let_def)
    next
      case None2: None
      with True None show ?thesis by (simp add: extract_height_range_def Let_def)
    qed
  qed
qed

lemma extract_flowering_range_returns:
  "\<exists>v. extract_flowering_range self raw mx = Inr v"
proof (cases "truthy raw")
  case False
  then show ?thesis by (simp add: extract_flowering_range_def)
next
  case True
  show ?thesis
  proof (cases "re_search week_pattern True (the raw)")
    case (Some m)
    from int_select_returns [OF week_groups [OF Some], of mx
           "\<lambda>v. Some (v * flowering_weeks_to_days self)"
           "\<lambda>v. Some (v * flowering_weeks_to_days self)"]
    show ?thesis using True Some
      by (simp add: extract_flowering_range_def Let_def)
  next
    case None
    show ?thesis
    proof (cases "re_search day_pattern True (the raw)")
      case (Some m)
      from int_select_returns [OF day_groups [OF Some], of mx Some Some]
      show ?thesis using True None Some
        by (simp add: extract_flowering_range_def Let_def)
    next
      case None2: None
      with True None show ?thesis by (simp add: extract_flowering_range_def Let_def)
    qed
  qed
qed

lemma extract_genetics_returns:
  "\<exists>v. extract_genetics raw ty = Inr v"
proof (cases "truthy raw")
  case False
  then show ?thesis by (simp add: extract_genetics_def)
next
  case True
  show ?thesis
  proof (cases "re_search (genetics_pattern ty) True (the raw)")
    case None
    with True show ?thesis by (simp add: extract_genetics_def)
  next
    case (Some m)
    from int_group_digits [OF genetics_groups [OF Some]] obtain v where
      "int_group (group m 1) = Inr v" by blast
    with True Some show ?thesis
      by (simp add: extract_genetics_def ebind_def)
  qed
qed

text \<open>The Normalizer returns for every rule table and every bronze record.\<close>

lemma process_bronze_to_gold_returns:
  "\<exists>r. process_bronze_to_gold self b = Inr r"
proof -
  obtain h1 h2 f1 f2 t1 t2 c1 c2 s i where
    "extract_height_range self (b ''height_raw'') False = Inr h1"
    "extract_height_range self (b ''height_raw'') True = Inr h2"
    "extract_flowering_range self (b ''flowering_time_raw'') False = Inr f1"
    "extract_flowering_range self (b ''flowering_time_raw'') True = Inr f2"
    "extract_percentage_range (b ''thc_content_raw'') False = Inr t1"
    "extract_percentage_range (b ''thc_content_raw'') True = Inr t2"
    "extract_percentage_range (b ''cbd_content_raw'') False = Inr c1"
    "extract_percentage_range (b ''cbd_content_raw'') True = Inr c2"
    "extract_genetics (b ''genetics_raw'') ''sativa'' = Inr s"
    "extract_genetics (b ''genetics_raw'') ''indica'' = Inr i"
    using extract_height_range_returns extract_flowering_range_returns
      extract_percentage_range_returns extract_genetics_returns
    by metis
  then show ?thesis
    by (simp add: process_bronze_to_gold_def ebind_def)
qed

subsection \<open>Purity of the Normalizer\<close>

subsection \<open>Purity of the Normalizer\<close>

lemma pbind_lift: "pbind (lift x) f h = (case x of Inl e \<Rightarrow> Inl e | Inr v \<Rightarrow> f v h)"
  by (simp add: pbind_def lift_def split: sum.splits)

lemma pbind_ret: "pbind (ret v) f h = f v h"
  by (simp add: pbind_def ret_def)

lemma pbind_assoc: "pbind (pbind m f) g = pbind m (\<lambda>v. pbind (f v) g)"
  by (rule ext) (simp add: pbind_def split: sum.splits prod.splits)

lemma pbind_bronze_get:
  "load h bronze_data = Some (BronzeObj d) \<Longrightarrow>
     pbind (bronze_get bronze_data key) f h = f (d key) h"
  by (simp add: pbind_def bronze_get_def)

lemma pbind_bronze_items:
  "load h bronze_data = Some (BronzeObj d) \<Longrightarrow>
     pbind (bronze_items bronze_data) f h = f d h"
  by (simp add: pbind_def bronze_items_def)

lemma pbind_conversion_rules:
  "load h self = Some (ProcessorObj p) \<Longrightarrow> pbind (conversion_rules self) f h = f p h"
  by (simp add: pbind_def conversion_rules_def)

text \<open>The result of a call, from the contents of the two objects it is given.\<close>

lemma alloc_two:
  "pbind (alloc (GoldObj g)) (\<lambda>gold_data. alloc (MedallionObj bronze_data gold_data)) h
     = Inr (Suc (lim h), medallion_heap h bronze_data g)"
  by (simp add: pbind_def alloc_def medallion_heap_def)

lemma case_ebind:
  "(case ebind x f of Inl e \<Rightarrow> Inl e | Inr r \<Rightarrow> g r) =
     (case x of Inl e \<Rightarrow> Inl e | Inr v \<Rightarrow> (case f v of Inl e \<Rightarrow> Inl e | Inr r \<Rightarrow> g r))"
  by (simp add: ebind_def split: sum.splits)

lemma process_reads_two_objects:
  assumes self: "load h self = Some (ProcessorObj p)"
    and bronze: "load h bronze_data = Some (BronzeObj d)"
  shows "process_bronze_to_gold_m self bronze_data h =
           (case process_bronze_to_gold p d of
              Inl e \<Rightarrow> Inl e
            | Inr r \<Rightarrow> Inr (Suc (lim h), medallion_heap h bronze_data (gold_layer r)))"
  unfolding process_bronze_to_gold_m_def process_bronze_to_gold_def
    extract_height_range_m_def extract_flowering_range_m_def extract_percentage_range_m_def
    extract_genetics_m_def standardize_effects_m_def standardize_flavors_m_def
    calculate_confidence_m_def pbind_assoc
  by (simp only: pbind_bronze_get [OF bronze] pbind_bronze_items [OF bronze]
        pbind_conversion_rules [OF self] pbind_lift pbind_ret alloc_two case_ebind
        sum.case medallion.simps
      cong: sum.case_cong)


lemma load_medallion_heap:
  "a < lim h \<Longrightarrow> load (medallion_heap h b g) a = load h a"
  "load (medallion_heap h b g) (lim h) = Some (GoldObj g)"
  "load (medallion_heap h b g) (Suc (lim h)) = Some (MedallionObj b (lim h))"
  "lim (medallion_heap h b g) = Suc (Suc (lim h))"
  by (simp_all add: load_def medallion_heap_def)

lemma load_Some_allocated: "load h a = Some obj \<Longrightarrow> a < lim h"
  by (simp add: load_def split: if_splits)

text \<open>
  Claim C9. A call of \<open>process_bronze_to_gold\<close> on an instance and a bronze dictionary
  returns. It leaves every object that was allocated before the call as it was, the bronze
  dictionary and the instance among them; it allocates two new dictionaries, the gold
  record and the result, whose \<open>bronze\<close> entry is the reference that was passed in. A second
  call on the same references leaves the bronze dictionary and the instance unchanged again
  and yields an identical gold record; so does every call, in any heap, on an instance and
  a bronze dictionary with the same contents.
\<close>

theorem normalizer_pure_on_heap:
  "load h self = Some (ProcessorObj p) \<Longrightarrow>
   load h bronze_data = Some (BronzeObj d) \<Longrightarrow>
   \<exists>res h' g gold_data.
       process_bronze_to_gold_m self bronze_data h = Inr (res, h')
     \<and> (\<forall>a. a < lim h \<longrightarrow> load h' a = load h a)
     \<and> lim h \<le> lim h'
     \<and> load h' res = Some (MedallionObj bronze_data gold_data)
     \<and> load h' gold_data = Some (GoldObj g)
     \<and> \<not> res < lim h \<and> \<not> gold_data < lim h
     \<and> (\<exists>res2 h2 gold2.
           process_bronze_to_gold_m self bronze_data h' = Inr (res2, h2)
         \<and> load h2 res2 = Some (MedallionObj bronze_data gold2)
         \<and> load h2 gold2 = Some (GoldObj g)
         \<and> load h2 bronze_data = load h bronze_data
         \<and> load h2 self = load h self)
     \<and> (\<forall>k self2 bronze2.
           load k self2 = load h self \<and> load k bronze2 = load h bronze_data
         \<longrightarrow> (\<exists>res2 k' gold2.
                 process_bronze_to_gold_m self2 bronze2 k = Inr (res2, k')
               \<and> load k' res2 = Some (MedallionObj bronze2 gold2)
               \<and> load k' gold2 = Some (GoldObj g)))"
proof -
  assume self: "load h self = Some (ProcessorObj p)"
    and bronze: "load h bronze_data = Some (BronzeObj d)"
  from process_bronze_to_gold_returns obtain r where r: "process_bronze_to_gold p d = Inr r"
    by blast
  let ?g = "gold_layer r"
  let ?h' = "medallion_heap h bronze_data ?g"
  let ?res = "Suc (lim h)"
  have run: "process_bronze_to_gold_m self bronze_data h = Inr (?res, ?h')"
    by (simp add: process_reads_two_objects [OF self bronze] r)
  have frame: "\<forall>a. a < lim h \<longrightarrow> load ?h' a = load h a"
    by (simp add: load_medallion_heap)
  have grows: "lim h \<le> lim ?h'"
    by (simp add: load_medallion_heap)
  have result: "load ?h' ?res = Some (MedallionObj bronze_data (lim h))"
    "load ?h' (lim h) = Some (GoldObj ?g)"
    by (simp_all add: load_medallion_heap)
  have fresh: "\<not> ?res < lim h" "\<not> lim h < lim h"
    by simp_all
  from self bronze have allocated: "self < lim h" "bronze_data < lim h"
    by (auto dest: load_Some_allocated)
  with frame self bronze have self': "load ?h' self = Some (ProcessorObj p)"
    and bronze': "load ?h' bronze_data = Some (BronzeObj d)"
    by simp_all
  have again: "\<exists>res2 h2 gold2.
           process_bronze_to_gold_m self bronze_data ?h' = Inr (res2, h2)
         \<and> load h2 res2 = Some (MedallionObj bronze_data gold2)
         \<and> load h2 gold2 = Some (GoldObj ?g)
         \<and> load h2 bronze_data = load h bronze_data
         \<and> load h2 self = load h self"
  proof -
    let ?h2 = "medallion_heap ?h' bronze_data ?g"
    have "process_bronze_to_gold_m self bronze_data ?h' = Inr (Suc (lim ?h'), ?h2)"
      by (simp add: process_reads_two_objects [OF self' bronze'] r)
    moreover have "load ?h2 (Suc (lim ?h')) = Some (MedallionObj bronze_data (lim ?h'))"
      by (rule load_medallion_heap(3))
    moreover have "load ?h2 (lim ?h') = Some (GoldObj ?g)"
      by (rule load_medallion_heap(2))
    moreover from allocated grows have "load ?h2 bronze_data = load ?h' bronze_data"
      "load ?h2 self = load ?h' self"
      by (simp_all add: load_medallion_heap)
    ultimately show ?thesis
      using self self' bronze bronze' by auto
  qed
  have other: "\<exists>res2 k' gold2.
                 process_bronze_to_gold_m self2 bronze2 k = Inr (res2, k')
               \<and> load k' res2 = Some (MedallionObj bronze2 gold2)
               \<and> load k' gold2 = Some (GoldObj ?g)"
    if k: "load k self2 = load h self \<and> load k bronze2 = load h bronze_data"
    for k self2 bronze2
  proof -
    from k self bronze have s2: "load k self2 = Some (ProcessorObj p)"
      and b2: "load k bronze2 = Some (BronzeObj d)"
      by simp_all
    let ?k' = "medallion_heap k bronze2 ?g"
    have "process_bronze_to_gold_m self2 bronze2 k = Inr (Suc (lim k), ?k')"
      by (simp add: process_reads_two_objects [OF s2 b2] r)
    moreover have "load ?k' (Suc (lim k)) = Some (MedallionObj bronze2 (lim k))"
      "load ?k' (lim k) = Some (GoldObj ?g)"
      by (simp_all only: load_medallion_heap)
    ultimately show ?thesis by blast
  qed
  from run frame grows result fresh again other show ?thesis
    by blast
qed

lemma sample_heap_loads:
  "load sample_heap 0 = Some (ProcessorObj MedallionProcessor_init)"
  "load sample_heap 1 = Some (BronzeObj sample_bronze)"
  "lim sample_heap = 2"
  by (simp_all add: sample_heap_def load_def)

lemma sample_bronze_gold:
  "\<exists>r. process_bronze_to_gold MedallionProcessor_init sample_bronze = Inr r
       \<and> height_cm_min (gold_layer r) = Some 80
       \<and> height_cm_max (gold_layer r) = Some 120
       \<and> thc_percentage_min (gold_layer r) = Some 18"
proof -
  have h: "extract_height_range MedallionProcessor_init (Some ''80-120cm'') False = Inr (Some 80)"
    "extract_height_range MedallionProcessor_init (Some ''80-120cm'') True = Inr (Some 120)"
    by code_simp+
  have t: "extract_percentage_range (Some ''18%'') False = Inr (Some 18)"
    "extract_percentage_range (Some ''18%'') True = Inr (Some 18)"
    by code_simp+
  have n: "extract_flowering_range MedallionProcessor_init None mx = Inr None"
    "extract_percentage_range None mx = Inr None"
    "extract_genetics None ty = Inr None" for mx ty
    by (simp_all add: extract_flowering_range_def extract_percentage_range_def
          extract_genetics_def truthy_def)
  show ?thesis
    by (simp add: process_bronze_to_gold_def sample_bronze_def ebind_def h t n)
qed

theorem normalizer_pure_on_heap_witness:
  "\<exists>res h'. process_bronze_to_gold_m 0 1 sample_heap = Inr (res, h')
     \<and> load h' 0 = Some (ProcessorObj MedallionProcessor_init)
     \<and> load h' 1 = Some (BronzeObj sample_bronze)
     \<and> (\<exists>g gold_data. load h' res = Some (MedallionObj 1 gold_data)
           \<and> load h' gold_data = Some (GoldObj g)
           \<and> height_cm_min g = Some 80 \<and> height_cm_max g = Some 120
           \<and> thc_percentage_min g = Some 18)"
proof -
  from normalizer_pure_on_heap [OF sample_heap_loads(1) sample_heap_loads(2)]
  obtain res h' g gold_data where
    run: "process_bronze_to_gold_m 0 1 sample_heap = Inr (res, h')"
    and frame: "\<forall>a. a < lim sample_heap \<longrightarrow> load h' a = load sample_heap a"
    and result: "load h' res = Some (MedallionObj 1 gold_data)" "load h' gold_data = Some (GoldObj g)"
    by blast
  from sample_bronze_gold obtain r where
    r: "process_bronze_to_gold MedallionProcessor_init sample_bronze = Inr r"
    and gold: "height_cm_min (gold_layer r) = Some 80" "height_cm_max (gold_layer r) = Some 120"
      "thc_percentage_min (gold_layer r) = Some 18"
    by blast
  let ?h = "medallion_heap sample_heap 1 (gold_layer r)"
  have "process_bronze_to_gold_m 0 1 sample_heap = Inr (Suc (lim sample_heap), ?h)"
    unfolding process_reads_two_objects [OF sample_heap_loads(1) sample_heap_loads(2)]
    by (simp only: r sum.case)
  with run have res: "res = Suc (lim sample_heap)" and h': "h' = ?h"
    by simp_all
  have loads: "load ?h (Suc (lim sample_heap)) = Some (MedallionObj 1 (lim sample_heap))"
    "load ?h (lim sample_heap) = Some (GoldObj (gold_layer r))"
    by (simp_all only: load_medallion_heap)
  from result(1) loads(1) have "gold_data = lim sample_heap"
    unfolding res h' by simp
  with result(2) loads(2) have g: "g = gold_layer r"
    unfolding h' by simp
  from frame have "load h' 0 = Some (ProcessorObj MedallionProcessor_init)"
    "load h' 1 = Some (BronzeObj sample_bronze)"
    using sample_heap_loads by simp_all
  with run result gold g show ?thesis
    by blast
qed

subsection \<open>Outlier Detector\<close>


lemma set_zip_index:
  "set (zip [0..<length xs] xs) = {(i, xs ! i) | i. i < length xs}"
proof -
  have "\<exists>j. i = [0..<length xs] ! j \<and> xs ! i = xs ! j \<and> j < length xs"
    if "i < length xs" for i
    using that by (intro exI [of _ i]) simp
  then show ?thesis by (auto simp: set_zip)
qed

lemma in_violations2:
  "(idx, r, v1, v2) \<in> set (violations2 df f1 f2 P) \<longleftrightarrow>
     idx < length (rows df) \<and> r = rows df ! idx \<and> cell df r f1 = Some v1
     \<and> cell df r f2 = Some v2 \<and> P v1 v2"
  unfolding violations2_def set_concat set_map set_zip_index
  by (auto split: option.splits if_splits)

lemma impossible_values_detect:
  "impossible_values (snd (detect_outliers stats df)) = check_impossible_combinations df"
  by (simp add: detect_outliers_def Let_def split: prod.splits)

lemma min_max_type:
  "f \<in> set (min_max_findings df) \<Longrightarrow> violation_type f = ''min_greater_than_max''"
  by (auto simp: min_max_findings_def split: if_splits)

lemma high_both_type:
  "f \<in> set (high_both_findings df) \<Longrightarrow> violation_type f = ''high_thc_and_cbd''"
  by (auto simp: high_both_findings_def split: if_splits)

lemma genetics_type:
  "f \<in> set (genetics_findings df) \<Longrightarrow> violation_type f = ''genetics_not_100_percent''"
  by (auto simp: genetics_findings_def Let_def split: if_splits)

lemma genetics_members:
  "f \<in> set (check_impossible_combinations df) \<and> violation_type f = ''genetics_not_100_percent''
     \<longleftrightarrow> f \<in> set (genetics_findings df)"
  using min_max_type [of f df] high_both_type [of f df] genetics_type [of f df]
  by (auto simp: check_impossible_combinations_def)


lemma in_genetics_findings:
  "f \<in> set (genetics_findings df) \<longleftrightarrow>
     (\<exists>idx s i. idx < length (rows df)
        \<and> cell df (rows df ! idx) ''sativa_percentage'' = Some s
        \<and> cell df (rows df ! idx) ''indica_percentage'' = Some i
        \<and> \<bar>s + i - 100\<bar> > 1
        \<and> f = \<lparr>row_index = idx, violation_type = ''genetics_not_100_percent'',
                 checked_fields = [''sativa_percentage'', ''indica_percentage''],
                 observed = [s, i, s + i],
                 severity = (if \<bar>s + i - 100\<bar> \<le> 5 then ''warning'' else ''critical''),
                 strain_name = get_strain_name df (rows df ! idx)\<rparr>)"
  (is "?L \<longleftrightarrow> ?R")
proof (cases "''sativa_percentage'' \<in> set (columns df) \<and> ''indica_percentage'' \<in> set (columns df)")
  case True
  have "?L \<longleftrightarrow> (\<exists>x \<in> set (violations2 df ''sativa_percentage'' ''indica_percentage''
                  (\<lambda>sativa indica. \<bar>sativa + indica - 100\<bar> > 1)).
             f = (case x of (idx, r, s, i) \<Rightarrow>
                  \<lparr>row_index = idx, violation_type = ''genetics_not_100_percent'',
                   checked_fields = [''sativa_percentage'', ''indica_percentage''],
                   observed = [s, i, s + i],
                   severity = (if \<bar>s + i - 100\<bar> \<le> 5 then ''warning'' else ''critical''),
                   strain_name = get_strain_name df r\<rparr>))"
    using True by (simp add: genetics_findings_def Let_def image_iff)
  also have "\<dots> \<longleftrightarrow> ?R"
    by (simp only: Bex_def split_paired_Ex in_violations2 prod.case) blast
  finally show ?thesis .
next
  case False
  then have "genetics_findings df = []"
    by (auto simp: genetics_findings_def)
  moreover from False have "\<not> ?R"
    by (auto simp: cell_def)
  ultimately show ?thesis by simp
qed

text \<open>
  Claim C6. For a row whose sativa and indica percentages are both present, the detector
  emits a genetics finding iff the sum deviates from 100 by more than 1; the finding is a
  warning when the deviation is at most 5 and critical otherwise.
\<close>

theorem genetics_finding_iff:
  "idx < length (rows df) \<Longrightarrow>
   cell df (rows df ! idx) ''sativa_percentage'' = Some s \<Longrightarrow>
   cell df (rows df ! idx) ''indica_percentage'' = Some i \<Longrightarrow>
   ((\<exists>f \<in> set (impossible_values (snd (detect_outliers stats df))).
        row_index f = idx \<and> violation_type f = ''genetics_not_100_percent'')
      \<longleftrightarrow> \<bar>s + i - 100\<bar> > 1)
   \<and> (\<forall>f \<in> set (impossible_values (snd (detect_outliers stats df))).
        row_index f = idx \<and> violation_type f = ''genetics_not_100_percent'' \<longrightarrow>
        severity f = (if \<bar>s + i - 100\<bar> \<le> 5 then ''warning'' else ''critical'')
        \<and> observed f = [s, i, s + i])"
proof -
  assume idx: "idx < length (rows df)"
    and s: "cell df (rows df ! idx) ''sativa_percentage'' = Some s"
    and i: "cell df (rows df ! idx) ''indica_percentage'' = Some i"
  let ?f = "\<lparr>row_index = idx, violation_type = ''genetics_not_100_percent'',
                 checked_fields = [''sativa_percentage'', ''indica_percentage''],
                 observed = [s, i, s + i],
                 severity = (if \<bar>s + i - 100\<bar> \<le> 5 then ''warning'' else ''critical''),
                 strain_name = get_strain_name df (rows df ! idx)\<rparr>"
  have G: "f \<in> set (impossible_values (snd (detect_outliers stats df)))
               \<and> violation_type f = ''genetics_not_100_percent''
             \<longleftrightarrow> f \<in> set (genetics_findings df)" for f
    by (simp add: impossible_values_detect genetics_members)
  have only: "f = ?f \<and> \<bar>s + i - 100\<bar> > 1"
    if "f \<in> set (genetics_findings df)" "row_index f = idx" for f
  proof -
    from that(1) obtain j s' i' where j: "j < length (rows df)"
      "cell df (rows df ! j) ''sativa_percentage'' = Some s'"
      "cell df (rows df ! j) ''indica_percentage'' = Some i'"
      "\<bar>s' + i' - 100\<bar> > 1"
      and f: "f = \<lparr>row_index = j, violation_type = ''genetics_not_100_percent'',
                 checked_fields = [''sativa_percentage'', ''indica_percentage''],
                 observed = [s', i', s' + i'],
                 severity = (if \<bar>s' + i' - 100\<bar> \<le> 5 then ''warning'' else ''critical''),
                 strain_name = get_strain_name df (rows df ! j)\<rparr>"
      unfolding in_genetics_findings by blast
    from f that(2) have "j = idx" by simp
    with j s i have "s' = s" "i' = i" by simp_all
    with f j \<open>j = idx\<close> show ?thesis by simp
  qed
  have there: "?f \<in> set (genetics_findings df)" if "\<bar>s + i - 100\<bar> > 1"
    unfolding in_genetics_findings using idx s i that by blast
  have a: "(\<exists>f \<in> set (impossible_values (snd (detect_outliers stats df))).
        row_index f = idx \<and> violation_type f = ''genetics_not_100_percent'')
      \<longleftrightarrow> \<bar>s + i - 100\<bar> > 1"
  proof
    assume "\<exists>f \<in> set (impossible_values (snd (detect_outliers stats df))).
        row_index f = idx \<and> violation_type f = ''genetics_not_100_percent''"
    then obtain f where "f \<in> set (genetics_findings df)" "row_index f = idx"
      using G by blast
    then show "\<bar>s + i - 100\<bar> > 1" using only by blast
  next
    assume d: "\<bar>s + i - 100\<bar> > 1"
    from there [OF d] have "?f \<in> set (impossible_values (snd (detect_outliers stats df)))"
      "violation_type ?f = ''genetics_not_100_percent''"
      using G [of ?f] by simp_all
    moreover have "row_index ?f = idx" by simp
    ultimately show "\<exists>f \<in> set (impossible_values (snd (detect_outliers stats df))).
        row_index f = idx \<and> violation_type f = ''genetics_not_100_percent''"
      by blast
  qed
  have b: "\<forall>f \<in> set (impossible_values (snd (detect_outliers stats df))).
        row_index f = idx \<and> violation_type f = ''genetics_not_100_percent'' \<longrightarrow>
        severity f = (if \<bar>s + i - 100\<bar> \<le> 5 then ''warning'' else ''critical'')
        \<and> observed f = [s, i, s + i]"
  proof (intro ballI impI)
    fix f
    assume "f \<in> set (impossible_values (snd (detect_outliers stats df)))"
      and "row_index f = idx \<and> violation_type f = ''genetics_not_100_percent''"
    then have "f \<in> set (genetics_findings df)" "row_index f = idx"
      using G by blast+
    then have "f = ?f" using only by blast
    then show "severity f = (if \<bar>s + i - 100\<bar> \<le> 5 then ''warning'' else ''critical'')
        \<and> observed f = [s, i, s + i]"
      by simp
  qed
  from a b show ?thesis by blast
qed

lemma genetics_sample_cells:
  "length (rows genetics_sample) = 3"
  "cell genetics_sample (rows genetics_sample ! 0) ''sativa_percentage'' = Some 60"
  "cell genetics_sample (rows genetics_sample ! 0) ''indica_percentage'' = Some 39"
  "cell genetics_sample (rows genetics_sample ! 1) ''sativa_percentage'' = Some 60"
  "cell genetics_sample (rows genetics_sample ! 1) ''indica_percentage'' = Some 35"
  "cell genetics_sample (rows genetics_sample ! 2) ''sativa_percentage'' = Some 60"
  "cell genetics_sample (rows genetics_sample ! 2) ''indica_percentage'' = Some 20"
  by (simp_all add: genetics_sample_def cell_def)

theorem genetics_finding_iff_witness:
  "(\<not> (\<exists>f \<in> set (impossible_values (snd (detect_outliers CannabisOutlierDetector_init genetics_sample))).
        row_index f = 0 \<and> violation_type f = ''genetics_not_100_percent''))
   \<and> (\<exists>f \<in> set (impossible_values (snd (detect_outliers CannabisOutlierDetector_init genetics_sample))).
        row_index f = 1 \<and> violation_type f = ''genetics_not_100_percent'' \<and> severity f = ''warning'')
   \<and> (\<exists>f \<in> set (impossible_values (snd (detect_outliers CannabisOutlierDetector_init genetics_sample))).
        row_index f = 2 \<and> violation_type f = ''genetics_not_100_percent'' \<and> severity f = ''critical'')"
proof -
  note c = genetics_sample_cells
  have r0: "\<not> (\<exists>f \<in> set (impossible_values (snd (detect_outliers CannabisOutlierDetector_init genetics_sample))).
        row_index f = 0 \<and> violation_type f = ''genetics_not_100_percent'')"
    using genetics_finding_iff [of 0 genetics_sample 60 39 CannabisOutlierDetector_init] c
    by simp
  have r1: "\<exists>f \<in> set (impossible_values (snd (detect_outliers CannabisOutlierDetector_init genetics_sample))).
        row_index f = 1 \<and> violation_type f = ''genetics_not_100_percent'' \<and> severity f = ''warning''"
    using genetics_finding_iff [of 1 genetics_sample 60 35 CannabisOutlierDetector_init] c
    by simp blast
  have r2: "\<exists>f \<in> set (impossible_values (snd (detect_outliers CannabisOutlierDetector_init genetics_sample))).
        row_index f = 2 \<and> violation_type f = ''genetics_not_100_percent'' \<and> severity f = ''critical''"
    using genetics_finding_iff [of 2 genetics_sample 60 20 CannabisOutlierDetector_init] c
    by simp blast
  from r0 r1 r2 show ?thesis by blast
qed


text \<open>
  Claim C7 on the code. A frame of gold records has the columns \<open>thc_percentage_min\<close> and
  \<open>thc_percentage_max\<close> but no column \<open>thc_percentage\<close>, so the test
  \<open>field in df.columns\<close> of \<open>detect_outliers\<close> skips the rule: the row with
  \<open>thc_percentage_min = 60\<close> is not among the critical outliers and the summary counts 0,
  although \<open>_check_field_outliers\<close>, called for the rule, reports the row.
\<close>

theorem hard_bound_not_counted:
  "critical_outliers (snd (detect_outliers CannabisOutlierDetector_init thc_sample)) = []
   \<and> critical_count (summary (snd (detect_outliers CannabisOutlierDetector_init thc_sample))) = 0
   \<and> check_field_outliers thc_sample ''thc_percentage''
        \<lparr>rule_min = Some 0, rule_max = Some 45, typical_max = Some 35, typical_range = None\<rparr>
      = [\<lparr>row_index = 0, violation_type = ''above_maximum'',
           checked_fields = [''thc_percentage_min''], observed = [60],
           severity = ''critical'', strain_name = Some ''Impossible Strain''\<rparr>]"
  by code_simp

lemma no_rows_violations:
  "violations \<lparr>columns = cols, rows = []\<rparr> f P = []"
  "violations2 \<lparr>columns = cols, rows = []\<rparr> f1 f2 Q = []"
  by (simp_all add: violations_def violations2_def)

lemma no_rows_field_outliers:
  "check_field_outliers \<lparr>columns = cols, rows = []\<rparr> field rules = []"
  by (simp add: check_field_outliers_def check_one_field_def no_rows_violations Let_def
        split: option.splits prod.splits)

lemma no_rows_impossible:
  "check_impossible_combinations \<lparr>columns = cols, rows = []\<rparr> = []"
  by (simp add: check_impossible_combinations_def min_max_findings_def min_max_pairs_def
        genetics_findings_def high_both_findings_def no_rows_violations)

text \<open>
  Claim C10. For a frame without rows, whatever its columns and the earlier state of the
  detector, the detector returns no finding, and the summary reports 0 records, 0 outliers,
  0 clean records, outlier percentage 0 and data quality score 0.
\<close>

theorem empty_dataset_summary:
  "summary (snd (detect_outliers stats \<lparr>columns = cols, rows = []\<rparr>)) =
     \<lparr>total_records = 0, total_outliers = 0, critical_count = 0, warning_count = 0,
      clean_records = 0, outlier_percentage = 0, data_quality_score = 0\<rparr>
   \<and> critical_outliers (snd (detect_outliers stats \<lparr>columns = cols, rows = []\<rparr>)) = []
   \<and> impossible_values (snd (detect_outliers stats \<lparr>columns = cols, rows = []\<rparr>)) = []
   \<and> suspicious_patterns (snd (detect_outliers stats \<lparr>columns = cols, rows = []\<rparr>)) = []"
  by (simp add: detect_outliers_def generate_summary_def no_rows_field_outliers no_rows_impossible
        check_suspicious_patterns_def round_number_findings_def duplicate_findings_def
        no_rows_violations Let_def split: prod.splits)

text \<open>The arithmetic of the summary: clean records, and the quality score of a frame
  with rows.\<close>

lemma summary_arithmetic:
  "clean_records (summary (snd (detect_outliers stats df)))
     = int (total_records (summary (snd (detect_outliers stats df))))
       - int (total_outliers (summary (snd (detect_outliers stats df))))
   \<and> total_records (summary (snd (detect_outliers stats df))) = length (rows df)
   \<and> (rows df \<noteq> [] \<longrightarrow>
        data_quality_score (summary (snd (detect_outliers stats df)))
          = max 0 (100 - outlier_percentage (summary (snd (detect_outliers stats df)))))"
  by (simp add: detect_outliers_def generate_summary_def Let_def split: prod.splits)

subsection \<open>Extractor\<close>


lemma potency_page_patterns:
  "extract_with_patterns potency_page =
     Inr [(''thc_content_source'', JStr ''Pattern matching''),
          (''thc_content_raw'', JStr ''18% THC''),
          (''thc_content_source'', JStr ''Pattern matching''),
          (''thc_content_raw'', JStr ''high''),
          (''thc_content_source'', JStr ''Pattern matching''),
          (''thc_content_raw'', JStr ''high'')]"
  by code_simp

lemma potency_page_first_pattern:
  "first_nonblank (finditer (potency_patterns ''THC'' ''thc'' ! 0) True (page_text potency_page))
     = Inr (Some ''high'')"
  by code_simp

text \<open>
  Claim C1 on the code. The \<open>break\<close> of \<open>_extract_with_patterns\<close> leaves the loop over
  the matches of one pattern, not the loop over the patterns of the field, so every later
  pattern that matches assigns the field again. On the page text ``THC: high. 18% THC''
  the first THC pattern captures ``high'', and the value stored is ``18% THC'', the
  capture of the third pattern.
\<close>

theorem later_pattern_replaces_value:
  "(\<exists>d. extract_with_patterns potency_page = Inr d
        \<and> dict_get d ''thc_content_raw'' = Some (JStr ''18% THC''))
   \<and> first_nonblank (finditer (potency_patterns ''THC'' ''thc'' ! 0) True (page_text potency_page))
       = Inr (Some ''high'')"
  by (simp add: potency_page_patterns potency_page_first_pattern dict_get_def)

lemma empty_page_patterns:
  "extract_with_patterns empty_script_page = Inr []"
  by code_simp


lemma dict_get_update:
  "dict_get (dict_update d1 d2) k = (case dict_get d2 k of Some v \<Rightarrow> Some v | None \<Rightarrow> dict_get d1 k)"
  by (simp add: dict_get_def dict_update_def map_add_def split: option.splits)

lemma guarded_update:
  "(if d \<noteq> [] then dict_update raw d else raw) = dict_update raw d"
  by (simp add: dict_update_def)

lemma extract_strain_data_Inr:
  "extract_strain_data loads now stats sp url = Inr (stats', data) \<Longrightarrow>
   \<exists>pattern_data meta_data.
      extract_with_patterns sp = Inr pattern_data \<and> extract_metadata loads sp = Inr meta_data
      \<and> raw_data data =
          dict_update (dict_update (dict_update (dict_update (dict_update []
            (extract_from_tables sp)) (extract_from_descriptions sp)) pattern_data)
            (extract_from_images sp)) meta_data"
proof -
  assume run: "extract_strain_data loads now stats sp url = Inr (stats', data)"
  from run obtain pattern_data where p: "extract_with_patterns sp = Inr pattern_data"
    by (cases "extract_with_patterns sp") (simp_all add: extract_strain_data_def ebind_def Let_def)
  from run p obtain meta_data where m: "extract_metadata loads sp = Inr meta_data"
    by (cases "extract_metadata loads sp")
       (simp_all add: extract_strain_data_def ebind_def Let_def)
  from run have "raw_data data =
      dict_update (dict_update (dict_update (dict_update (dict_update []
        (extract_from_tables sp)) (extract_from_descriptions sp)) pattern_data)
        (extract_from_images sp)) meta_data"
    unfolding extract_strain_data_def Let_def guarded_update p m ebind_def
    by auto
  with p m show ?thesis by blast
qed

text \<open>
  Claim C2. When the Extractor returns, the strategies were run in the order table scan,
  prose mining, pattern matching, visual indicators, metadata scan, and the value of every
  key of the bronze record is that of the last strategy in this order that produced the key.
\<close>

theorem merge_last_writer_wins:
  "extract_strain_data loads now stats sp url = Inr (stats', data) \<Longrightarrow>
   \<exists>pattern_data meta_data.
      extract_with_patterns sp = Inr pattern_data \<and> extract_metadata loads sp = Inr meta_data
      \<and> (\<forall>k. dict_get (raw_data data) k =
           (case dict_get meta_data k of Some v \<Rightarrow> Some v | None \<Rightarrow>
            (case dict_get (extract_from_images sp) k of Some v \<Rightarrow> Some v | None \<Rightarrow>
             (case dict_get pattern_data k of Some v \<Rightarrow> Some v | None \<Rightarrow>
              (case dict_get (extract_from_descriptions sp) k of Some v \<Rightarrow> Some v | None \<Rightarrow>
               dict_get (extract_from_tables sp) k)))))"
proof -
  assume run: "extract_strain_data loads now stats sp url = Inr (stats', data)"
  from extract_strain_data_Inr [OF run] obtain pattern_data meta_data where
    p: "extract_with_patterns sp = Inr pattern_data" and
    m: "extract_metadata loads sp = Inr meta_data" and
    r: "raw_data data =
          dict_update (dict_update (dict_update (dict_update (dict_update []
            (extract_from_tables sp)) (extract_from_descriptions sp)) pattern_data)
            (extract_from_images sp)) meta_data"
    by blast
  have e: "dict_get [] k = None" for k
    by (simp add: dict_get_def)
  have "\<forall>k. dict_get (raw_data data) k =
           (case dict_get meta_data k of Some v \<Rightarrow> Some v | None \<Rightarrow>
            (case dict_get (extract_from_images sp) k of Some v \<Rightarrow> Some v | None \<Rightarrow>
             (case dict_get pattern_data k of Some v \<Rightarrow> Some v | None \<Rightarrow>
              (case dict_get (extract_from_descriptions sp) k of Some v \<Rightarrow> Some v | None \<Rightarrow>
               dict_get (extract_from_tables sp) k))))"
    unfolding r by (simp add: dict_get_update e split: option.splits)
  with p m show ?thesis by blast
qed

lemma empty_script_metadata:
  "extract_metadata loads empty_script_page = Inl TypeError"
  by (simp add: extract_metadata_def json_ld_step_def empty_script_page_def empty_soup_def
        ebind_def)


text \<open>
  Claim C8 on the code. For a document with a JSON-LD script tag without content,
  \<open>script.string\<close> is \<open>None\<close>, \<open>json.loads\<close> raises \<open>TypeError\<close>, the \<open>except\<close> clause of
  the metadata scan does not catch it, and \<open>extract_strain_data\<close> raises.
\<close>

theorem metadata_scan_raises:
  "extract_strain_data loads now stats empty_script_page url = Inl TypeError"
  by (simp add: extract_strain_data_def empty_page_patterns empty_script_metadata ebind_def Let_def)

lemma table_page_run:
  "extract_strain_data (\<lambda>s. None) ''t'' CannabisDataExtractor_init table_page ''u'' =
     Inr (\<lparr>tables_found = 1, descriptions_found = 0, patterns_matched = 1,
            images_processed = 0\<rparr>,
          \<lparr>source_url = ''u'', extraction_timestamp = ''t'',
            raw_data =
              [(''height_source'', JStr ''Pattern matching''),
               (''height_raw'', JStr ''120-180cm THC 18%''),
               (''thc_content_source'', JStr ''Pattern matching''),
               (''thc_content_raw'', JStr ''18%''),
               (''thc_content_source'', JStr ''Pattern matching''),
               (''thc_content_raw'', JStr ''18%''),
               (''thc_source'', JStr ''Table 1''), (''thc_raw'', JStr ''18%''),
               (''height_source'', JStr ''Table 1''),
               (''height_raw'', JStr ''120-180cm'')]\<rparr>)"
  by code_simp

lemma table_page_strategies:
  "extract_from_tables table_page =
     [(''thc_source'', JStr ''Table 1''), (''thc_raw'', JStr ''18%''),
      (''height_source'', JStr ''Table 1''), (''height_raw'', JStr ''120-180cm'')]"
  "extract_from_descriptions table_page = []"
  "extract_from_images table_page = []"
  "extract_metadata (\<lambda>s. None) table_page = Inr []"
  "extract_with_patterns table_page =
     Inr [(''height_source'', JStr ''Pattern matching''),
          (''height_raw'', JStr ''120-180cm THC 18%''),
          (''thc_content_source'', JStr ''Pattern matching''),
          (''thc_content_raw'', JStr ''18%''),
          (''thc_content_source'', JStr ''Pattern matching''),
          (''thc_content_raw'', JStr ''18%'')]"
  by code_simp+

theorem merge_last_writer_wins_witness:
  "\<exists>stats' data.
     extract_strain_data (\<lambda>s. None) ''t'' CannabisDataExtractor_init table_page ''u''
       = Inr (stats', data)
     \<and> dict_get (extract_from_tables table_page) ''height_raw'' = Some (JStr ''120-180cm'')
     \<and> dict_get (raw_data data) ''height_raw'' = Some (JStr ''120-180cm THC 18%'')"
proof -
  obtain stats' data where run:
    "extract_strain_data (\<lambda>s. None) ''t'' CannabisDataExtractor_init table_page ''u''
       = Inr (stats', data)"
    using table_page_run by blast
  from merge_last_writer_wins [OF run]
  have "dict_get (raw_data data) ''height_raw'' = Some (JStr ''120-180cm THC 18%'')"
    by (auto simp: table_page_strategies dict_get_def)
  moreover have "dict_get (extract_from_tables table_page) ''height_raw'' = Some (JStr ''120-180cm'')"
    by (simp add: table_page_strategies dict_get_def)
  ultimately show ?thesis using run by blast
qed

end
